theory Spec2Isabelle
  imports Main "HOL-Library.Word"
begin

unbundle bit_operations_syntax

section \<open>The iterator module of the resolver (iterator/iterator.c)\<close>

text \<open>
  A shallow embedding of \<^verbatim>\<open>iterator/iterator.c\<close>. Every C function that the properties
  below talk about is one HOL function of the same name. Structures are records, the
  enumerations are datatypes, a pointer that may be \<^verbatim>\<open>NULL\<close> is an \<open>option\<close>, and a
  function that writes through its pointer arguments returns the updated structures next
  to its C return value. Where the C text reads through a pointer that is \<^verbatim>\<open>NULL\<close>, or reads
  the first byte of an empty name, the model returns \<open>None\<close>.

  The headers are not part of the source file. Their macros and the functions of the
  collaborating modules (cache, encoder, parser, network) are fields of the record
  \<open>module_env\<close>: every theorem holds for all their values. The calls that the module
  makes on its collaborators are appended, oldest first, to the field \<open>calls\<close> of the
  query state. The \<^verbatim>\<open>verbose\<close> and \<^verbatim>\<open>log_nametypeclass\<close> diagnostics are left out of this
  record of calls; \<^verbatim>\<open>log_err\<close>, \<^verbatim>\<open>log_warn\<close> and \<^verbatim>\<open>log_info\<close> are kept, with their format
  string.
\<close>

subsection \<open>Data model\<close>

type_synonym dname = "8 word list"
type_synonym ldns_buffer = "8 word list"
type_synonym sockaddr = "8 word list"
type_synonym outbound_entry = nat
type_synonym delegpt = nat
type_synonym packed_rrset_data = nat

text \<open>The states named by \<^verbatim>\<open>iter_state_to_string\<close>, in the order of the switch of
  \<^verbatim>\<open>iter_handle\<close>.\<close>

datatype iter_state =
    INIT_REQUEST_STATE
  | INIT_REQUEST_2_STATE
  | INIT_REQUEST_3_STATE
  | QUERYTARGETS_STATE
  | QUERY_RESP_STATE
  | PRIME_RESP_STATE
  | TARGET_RESP_STATE
  | FINISHED_STATE

text \<open>The events and external states that the source file names; the last constructor
  of each type stands for every other value of the C enumeration.\<close>

datatype module_ev =
    module_event_new
  | module_event_reply
  | module_event_timeout
  | module_event_error
  | module_event_other

datatype module_ext_state =
    module_wait_reply
  | module_error
  | module_finished
  | module_state_other

record query_info =
  qname :: dname
  qname_len :: "64 word"
  qtype :: "16 word"
  qclass :: "16 word"
  has_cd :: bool

record edns_data =
  edns_present :: bool
  ext_rcode :: "8 word"
  edns_version :: "8 word"
  bits :: "16 word"
  udp_size :: "16 word"

record packed_rrset_key =
  dname :: dname
  rr_type :: "16 word"
  rr_class :: "16 word"

text \<open>An entry of the prepend list: \<^verbatim>\<open>p->rrset.k\<close> points to a key, \<^verbatim>\<open>p->rrset.d\<close> to the
  packed data. The linked list \<^verbatim>\<open>iq->prepend_list\<close> is a HOL list, first entry first;
  \<^verbatim>\<open>iq->prepend_last\<close>, the pointer to its last entry, has no field of its own.\<close>

record packed_rrset =
  rrset_k :: packed_rrset_key
  rrset_d :: packed_rrset_data

record ub_packed_rrset_key =
  rk :: packed_rrset_key
  entry_data :: packed_rrset_data

text \<open>\<^verbatim>\<open>rrsets\<close> is the array that \<^verbatim>\<open>rep->rrsets\<close> points to, \<^verbatim>\<open>rrset_count\<close> the count
  stored next to it.\<close>

record reply_info =
  rrsets :: "ub_packed_rrset_key list"
  rrset_count :: nat

record dns_msg =
  rep :: reply_info

datatype call =
    Send_query dname "64 word" "16 word" "16 word" "16 word" int sockaddr nat
  | Dns_cache_lookup dname "64 word" "16 word" "16 word" bool
  | Dns_cache_find_delegation dname "64 word" "16 word"
  | Dns_cache_store_msg query_info "32 word" reply_info
  | Log_err string
  | Log_warn string
  | Log_info string

record iter_qstate =
  state :: iter_state
  final_state :: iter_state
  prepend_list :: "packed_rrset list"
  dp :: "delegpt option"
  current_target :: "nat option"
  num_target_queries :: int
  num_current_queries :: int
  query_restart_count :: int
  referral_count :: int
  priming_stub :: int
  orig_qflags :: "16 word"
  orig_qname :: "dname option"
  orig_qnamelen :: "64 word"
  outlist :: "outbound_entry list"

text \<open>The query state as this module sees it: \<^verbatim>\<open>minfo\<close> and \<^verbatim>\<open>ext_state\<close> are the slots
  \<^verbatim>\<open>minfo[id]\<close> and \<^verbatim>\<open>ext_state[id]\<close> of this module, \<^verbatim>\<open>reply\<close> is the buffer
  \<^verbatim>\<open>reply->c->buffer\<close> when \<^verbatim>\<open>reply\<close> is not \<^verbatim>\<open>NULL\<close>. The region is the list of the
  outcomes of its future allocations (\<open>True\<close>: memory returned, \<open>False\<close>: \<^verbatim>\<open>NULL\<close>); a
  region whose list is used up returns \<^verbatim>\<open>NULL\<close>.\<close>

record module_qstate =
  qinfo :: query_info
  query_hash :: "32 word"
  query_flags :: "16 word"
  edns :: edns_data
  reply :: "ldns_buffer option"
  buf :: ldns_buffer
  region :: "bool list"
  minfo :: "iter_qstate option"
  ext_state :: module_ext_state
  calls :: "call list"

record iter_env =
  max_dependency_depth :: int
  fwd_addr :: sockaddr
  fwd_addrlen :: nat

text \<open>What the headers and the other modules provide. The macros keep their C names.
  \<open>uninit\<close> is the content of a pointer slot of freshly allocated region memory,
  \<open>time_now\<close> the value of \<^verbatim>\<open>time(NULL)\<close>.\<close>

record module_env =
  MAX_RESTART_COUNT :: int
  LDNS_RR_TYPE_DS :: "16 word"
  LDNS_RCODE_SERVFAIL :: int
  BIT_CD :: "16 word"
  EDNS_DO :: "16 word"
  EDNS_ADVERTISED_VERSION :: "8 word"
  EDNS_ADVERTISED_SIZE :: "16 word"
  LDNS_RCODE_SET :: "ldns_buffer \<Rightarrow> int \<Rightarrow> ldns_buffer"
  LDNS_QR_SET :: "ldns_buffer \<Rightarrow> ldns_buffer"
  qinfo_query_encode :: "ldns_buffer \<Rightarrow> query_info \<Rightarrow> ldns_buffer"
  reply_info_answer_encode ::
    "query_info \<Rightarrow> reply_info \<Rightarrow> 16 word \<Rightarrow> 16 word \<Rightarrow> ldns_buffer \<Rightarrow> 32 word \<Rightarrow> bool
       \<Rightarrow> 16 word \<Rightarrow> edns_data \<Rightarrow> bool \<times> ldns_buffer"
  reply_info_parse :: "ldns_buffer \<Rightarrow> (query_info \<times> reply_info \<times> edns_data) option"
  dns_cache_lookup :: "dname \<Rightarrow> 64 word \<Rightarrow> 16 word \<Rightarrow> 16 word \<Rightarrow> bool \<Rightarrow> dns_msg option"
  dns_cache_find_delegation :: "dname \<Rightarrow> 64 word \<Rightarrow> 16 word \<Rightarrow> delegpt option"
  send_query ::
    "dname \<Rightarrow> 64 word \<Rightarrow> 16 word \<Rightarrow> 16 word \<Rightarrow> 16 word \<Rightarrow> int \<Rightarrow> sockaddr \<Rightarrow> nat
       \<Rightarrow> outbound_entry option"
  module_subreq_depth :: "module_qstate \<Rightarrow> int"
  time_now :: "32 word"
  uninit :: ub_packed_rrset_key
  modinfo :: iter_env

subsection \<open>Helpers of the module\<close>

definition called :: "call \<Rightarrow> module_qstate \<Rightarrow> module_qstate" where
  "called c qstate = qstate\<lparr>calls := calls qstate @ [c]\<rparr>"

text \<open>\<^verbatim>\<open>region_alloc\<close>: the pointer is not \<^verbatim>\<open>NULL\<close> iff the first component is \<open>True\<close>.\<close>

fun region_alloc :: "bool list \<Rightarrow> bool \<times> bool list" where
  "region_alloc [] = (False, [])"
| "region_alloc (ok # r) = (ok, r)"

fun iter_state_is_responsestate :: "iter_state \<Rightarrow> bool" where
  "iter_state_is_responsestate INIT_REQUEST_STATE = False"
| "iter_state_is_responsestate INIT_REQUEST_2_STATE = False"
| "iter_state_is_responsestate INIT_REQUEST_3_STATE = False"
| "iter_state_is_responsestate QUERYTARGETS_STATE = False"
| "iter_state_is_responsestate _ = True"

definition next_state ::
  "module_qstate \<Rightarrow> iter_qstate \<Rightarrow> iter_state \<Rightarrow> bool \<times> module_qstate \<times> iter_qstate" where
  "next_state qstate iq nextstate =
     (let qstate1 =
            (if iter_state_is_responsestate nextstate \<and> reply qstate = None
             then called (Log_err ''transitioning to response state sans response.'') qstate
             else qstate)
      in (True, qstate1, iq\<lparr>state := nextstate\<rparr>))"

definition final_state ::
  "module_qstate \<Rightarrow> iter_qstate \<Rightarrow> bool \<times> module_qstate \<times> iter_qstate" where
  "final_state qstate iq = next_state qstate iq (iter_qstate.final_state iq)"

definition error_response ::
  "module_env \<Rightarrow> module_qstate \<Rightarrow> iter_qstate \<Rightarrow> int \<Rightarrow> bool \<times> module_qstate \<times> iter_qstate" where
  "error_response env qstate iq rcode =
     (let qstate1 = called (Log_info ''err response %s'') qstate;
          b1 = qinfo_query_encode env (buf qstate1) (qinfo qstate1);
          b2 = LDNS_RCODE_SET env b1 rcode;
          b3 = LDNS_QR_SET env b2
      in final_state (qstate1\<lparr>buf := b3\<rparr>) iq)"

subsection \<open>Splicing the prepend list into a message\<close>

text \<open>The record set that the loop of \<^verbatim>\<open>iter_prepend\<close> builds for an entry \<^verbatim>\<open>p\<close> of the
  list: \<^verbatim>\<open>rk = *p->rrset.k\<close> and \<^verbatim>\<open>entry.data = p->rrset.d\<close>.\<close>

definition prepended :: "packed_rrset \<Rightarrow> ub_packed_rrset_key" where
  "prepended p = \<lparr>rk = rrset_k p, entry_data = rrset_d p\<rparr>"

text \<open>The second loop of \<^verbatim>\<open>iter_prepend\<close>: for each entry one allocation, then
  \<^verbatim>\<open>sets[num]\<close> is written and \<^verbatim>\<open>num\<close> advances. The result is \<open>None\<close> when an allocation
  returns \<^verbatim>\<open>NULL\<close>.\<close>

fun prepend_fill ::
  "packed_rrset list \<Rightarrow> ub_packed_rrset_key list \<Rightarrow> nat \<Rightarrow> bool list
     \<Rightarrow> ub_packed_rrset_key list option \<times> bool list" where
  "prepend_fill [] sets num r = (Some sets, r)"
| "prepend_fill (p # ps) sets num r =
     (case region_alloc r of
        (False, r') \<Rightarrow> (None, r')
      | (True, r') \<Rightarrow>
          prepend_fill ps (sets[num := prepended p]) (num + 1) r')"

text \<open>\<^verbatim>\<open>iter_prepend\<close> returns its C result, the message and the region. The array
  \<^verbatim>\<open>sets\<close> has \<^verbatim>\<open>num + rrset_count\<close> slots; \<^verbatim>\<open>memcpy\<close> copies \<^verbatim>\<open>rrset_count\<close> pointers of the
  old array to the slots from \<^verbatim>\<open>num\<close> on. \<^verbatim>\<open>rrset_count\<close> itself is not written.\<close>

definition iter_prepend ::
  "module_env \<Rightarrow> iter_qstate \<Rightarrow> dns_msg \<Rightarrow> bool list \<Rightarrow> bool \<times> dns_msg \<times> bool list" where
  "iter_prepend env iq msg r =
     (let num = length (prepend_list iq) in
      if num = 0 then (True, msg, r)
      else
        (case region_alloc r of
           (False, r1) \<Rightarrow> (False, msg, r1)
         | (True, r1) \<Rightarrow>
             (let sets0 = replicate (num + rrset_count (rep msg)) (uninit env);
                  sets1 = take num sets0 @ take (rrset_count (rep msg)) (rrsets (rep msg))
              in case prepend_fill (prepend_list iq) sets1 0 r1 of
                   (None, r2) \<Rightarrow> (False, msg, r2)
                 | (Some sets, r2) \<Rightarrow>
                     (True, msg\<lparr>rep := (rep msg)\<lparr>rrsets := sets\<rparr>\<rparr>, r2))))"

subsection \<open>Response assembly\<close>

text \<open>\<^verbatim>\<open>iter_encode_respmsg\<close> returns nothing in C; the model returns the query state and
  the iterator state that it leaves behind.\<close>

text \<open>The two local structures of \<^verbatim>\<open>iter_encode_respmsg\<close>: \<^verbatim>\<open>qinf\<close>, the query with the
  original name when one was saved, and \<^verbatim>\<open>edns\<close>.\<close>

definition respmsg_qinf :: "module_qstate \<Rightarrow> iter_qstate \<Rightarrow> query_info" where
  "respmsg_qinf qstate iq =
     (case orig_qname iq of
        None \<Rightarrow> qinfo qstate
      | Some n \<Rightarrow> (qinfo qstate)\<lparr>qname := n, qname_len := orig_qnamelen iq\<rparr>)"

definition respmsg_edns :: "module_env \<Rightarrow> module_qstate \<Rightarrow> edns_data" where
  "respmsg_edns env qstate =
     \<lparr>edns_present = edns_present (edns qstate),
      ext_rcode = 0,
      edns_version = EDNS_ADVERTISED_VERSION env,
      bits = bits (edns qstate) AND EDNS_DO env,
      udp_size = EDNS_ADVERTISED_SIZE env\<rparr>"

definition iter_encode_respmsg ::
  "module_env \<Rightarrow> module_qstate \<Rightarrow> iter_qstate \<Rightarrow> dns_msg \<Rightarrow> module_qstate \<times> iter_qstate" where
  "iter_encode_respmsg env qstate iq msg =
     (let qinf = respmsg_qinf qstate iq;
          (ok, msg1, r1) =
             (if prepend_list iq \<noteq> [] then iter_prepend env iq msg (region qstate)
              else (True, msg, region qstate));
          qstate1 = qstate\<lparr>region := r1\<rparr>
      in if \<not> ok then snd (error_response env qstate1 iq (LDNS_RCODE_SERVFAIL env))
         else
           (let edns1 = respmsg_edns env qstate1;
                (ok2, b) = reply_info_answer_encode env qinf (rep msg1) 0 (orig_qflags iq)
                             (buf qstate1) (time_now env) True (udp_size (edns qstate1)) edns1;
                qstate2 = qstate1\<lparr>buf := b\<rparr>
            in if \<not> ok2 then snd (error_response env qstate2 iq (LDNS_RCODE_SERVFAIL env))
               else (qstate2, iq)))"

subsection \<open>The handler of the initial state\<close>

text \<open>\<^verbatim>\<open>processInitRequest\<close>. The type test of the cached message is commented out in the
  source, so the block that restarts the query is entered for every message that the
  cache returns, and it ends in \<^verbatim>\<open>return\<close>: the two statements after it
  (\<^verbatim>\<open>iter_encode_respmsg\<close> and \<^verbatim>\<open>final_state\<close>) are never executed and have no branch
  here. \<^verbatim>\<open>query_restart_count\<close> is a C \<^verbatim>\<open>int\<close>; it is incremented only when it is at most
  \<^verbatim>\<open>MAX_RESTART_COUNT\<close>, so the increment is the one of the integers.\<close>

text \<open>The block of \<^verbatim>\<open>processInitRequest\<close> that computes \<^verbatim>\<open>delname\<close> and \<^verbatim>\<open>delnamelen\<close>, the
  name whose delegation is looked up. \<^verbatim>\<open>delname[0]\<close> is read only for a DS query; the name
  is a byte string in wire format, \<^verbatim>\<open>lablen\<close> and the lengths are of type \<^verbatim>\<open>size_t\<close> (64
  bits here), whose subtraction wraps around.\<close>

definition delname_adjust :: "module_env \<Rightarrow> query_info \<Rightarrow> (dname \<times> 64 word) option" where
  "delname_adjust env qi =
     (if qtype qi = LDNS_RR_TYPE_DS env
      then (case qname qi of
              [] \<Rightarrow> None
            | b # bs \<Rightarrow>
                if b \<noteq> 0
                then (let lablen = (ucast b :: 64 word) + 1
                      in Some (drop (unat lablen) (qname qi), qname_len qi - lablen))
                else Some (qname qi, qname_len qi))
      else Some (qname qi, qname_len qi))"

definition processInitRequest ::
  "module_env \<Rightarrow> module_qstate \<Rightarrow> iter_qstate \<Rightarrow> iter_env
     \<Rightarrow> (bool \<times> module_qstate \<times> iter_qstate) option" where
  "processInitRequest env qstate iq ie =
     (if query_restart_count iq > MAX_RESTART_COUNT env
      then Some (error_response env qstate iq (LDNS_RCODE_SERVFAIL env))
      else
        (let depth = module_subreq_depth env qstate in
         if depth > max_dependency_depth ie
         then Some (error_response env qstate iq (LDNS_RCODE_SERVFAIL env))
         else
           (let qi = qinfo qstate;
                msg = dns_cache_lookup env (qname qi) (qname_len qi) (qtype qi) (qclass qi)
                        (has_cd qi);
                qstate1 = called (Dns_cache_lookup (qname qi) (qname_len qi) (qtype qi)
                                    (qclass qi) (has_cd qi)) qstate
            in case msg of
                 Some m \<Rightarrow>
                   Some (next_state qstate1
                           (iq\<lparr>query_restart_count := query_restart_count iq + 1\<rparr>)
                           INIT_REQUEST_STATE)
               | None \<Rightarrow>
                   (case delname_adjust env qi of
                      None \<Rightarrow> None
                    | Some (delname, delnamelen) \<Rightarrow>
                        (let found = dns_cache_find_delegation env delname delnamelen (qclass qi);
                             qstate2 = called (Dns_cache_find_delegation delname delnamelen
                                                 (qclass qi)) qstate1;
                             iq1 = iq\<lparr>dp := found\<rparr>
                         in if found = None then Some (False, qstate2, iq1)
                            else Some (next_state qstate2 iq1 INIT_REQUEST_2_STATE))))))"

subsection \<open>The processing loop and the entry points\<close>

text \<open>\<^verbatim>\<open>iter_handle\<close> loops while a handler returns true. The loop need not end (a query
  whose final state is the initial state and whose restart count is over the limit is
  handled again and again), so the result is an \<open>option\<close>: \<open>None\<close> when the loop does not
  return, or when a handler reads through an invalid pointer.\<close>

partial_function (option) iter_handle ::
  "module_env \<Rightarrow> module_qstate \<Rightarrow> iter_qstate \<Rightarrow> iter_env
     \<Rightarrow> (module_qstate \<times> iter_qstate) option" where
  "iter_handle env qstate iq ie =
     (if state iq = INIT_REQUEST_STATE
      then Option.bind (processInitRequest env qstate iq ie)
             (\<lambda>(cont, qstate1, iq1).
                if cont then iter_handle env qstate1 iq1 ie else Some (qstate1, iq1))
      else Some (called (Log_warn ''iterator: invalid state: %d'') qstate, iq))"

declare iter_handle.simps [code]

definition process_request ::
  "module_env \<Rightarrow> module_qstate \<Rightarrow> iter_qstate \<Rightarrow> iter_env
     \<Rightarrow> (module_qstate \<times> iter_qstate) option" where
  "process_request env qstate iq ie =
     iter_handle env qstate (iq\<lparr>state := INIT_REQUEST_STATE, final_state := FINISHED_STATE\<rparr>) ie"

definition process_response ::
  "module_env \<Rightarrow> module_qstate \<Rightarrow> iter_qstate \<Rightarrow> iter_env \<Rightarrow> outbound_entry option
     \<Rightarrow> (module_qstate \<times> iter_qstate) option" where
  "process_response env qstate iq ie outbound =
     iter_handle env qstate (iq\<lparr>state := QUERY_RESP_STATE\<rparr>) ie"

subsection \<open>Creating the per-query state\<close>

text \<open>The structure after \<^verbatim>\<open>memset(iq, 0, sizeof(*iq))\<close>: counters zero, pointers
  \<^verbatim>\<open>NULL\<close>, the two states the enumerator of value zero, which \<^verbatim>\<open>iterator.h\<close> gives to the
  initial state.\<close>

definition zeroed_iter_qstate :: iter_qstate where
  "zeroed_iter_qstate =
     \<lparr>state = INIT_REQUEST_STATE, final_state = INIT_REQUEST_STATE, prepend_list = [],
      dp = None, current_target = None, num_target_queries = 0, num_current_queries = 0,
      query_restart_count = 0, referral_count = 0, priming_stub = 0, orig_qflags = 0,
      orig_qname = None, orig_qnamelen = 0, outlist = []\<rparr>"

definition iter_new :: "module_qstate \<Rightarrow> bool \<times> module_qstate" where
  "iter_new qstate =
     (case region_alloc (region qstate) of
        (False, r1) \<Rightarrow> (False, qstate\<lparr>region := r1, minfo := None\<rparr>)
      | (True, r1) \<Rightarrow>
          (True, qstate\<lparr>region := r1,
                         minfo := Some (zeroed_iter_qstate
                           \<lparr>state := INIT_REQUEST_STATE,
                            final_state := FINISHED_STATE,
                            prepend_list := [],
                            dp := None,
                            current_target := None,
                            num_target_queries := - 1,
                            num_current_queries := 0,
                            query_restart_count := 0,
                            referral_count := 0,
                            priming_stub := 0,
                            orig_qflags := query_flags qstate,
                            outlist := []\<rparr>)\<rparr>))"

subsection \<open>Forwarding\<close>

text \<open>\<^verbatim>\<open>fwd_new\<close>. The outbound list is a list of the entries in flight:
  \<^verbatim>\<open>outbound_list_init\<close> makes it empty and \<^verbatim>\<open>outbound_list_insert\<close> adds one entry.\<close>

definition fwd_new :: "module_env \<Rightarrow> module_qstate \<Rightarrow> bool \<times> module_qstate" where
  "fwd_new env qstate =
     (let ie = modinfo env in
      case region_alloc (region qstate) of
        (False, r1) \<Rightarrow> (False, qstate\<lparr>region := r1, minfo := None\<rparr>)
      | (True, r1) \<Rightarrow>
          (let iq = zeroed_iter_qstate\<lparr>outlist := []\<rparr>;
               qi = qinfo qstate;
               flags = (if has_cd qi then 0 OR BIT_CD env else 0);
               dnssec = 1;
               e = send_query env (qname qi) (qname_len qi) (qtype qi) (qclass qi) flags dnssec
                     (fwd_addr ie) (fwd_addrlen ie);
               qstate1 = called (Send_query (qname qi) (qname_len qi) (qtype qi) (qclass qi)
                                   flags dnssec (fwd_addr ie) (fwd_addrlen ie))
                           (qstate\<lparr>region := r1, minfo := Some iq\<rparr>)
           in case e of
                None \<Rightarrow> (False, qstate1)
              | Some ent \<Rightarrow>
                  (True, qstate1\<lparr>minfo := Some (iq\<lparr>outlist := ent # outlist iq\<rparr>),
                                  ext_state := module_wait_reply\<rparr>)))"

text \<open>The four assignments of \<^verbatim>\<open>iter_handlereply\<close> to \<^verbatim>\<open>qstate->edns\<close>.\<close>

definition handlereply_edns :: "module_env \<Rightarrow> edns_data \<Rightarrow> edns_data" where
  "handlereply_edns env e =
     e\<lparr>edns_version := EDNS_ADVERTISED_VERSION env,
       udp_size := EDNS_ADVERTISED_SIZE env,
       ext_rcode := 0,
       bits := bits e AND EDNS_DO env\<rparr>"

text \<open>\<^verbatim>\<open>iter_handlereply\<close> reads \<^verbatim>\<open>qstate->reply->c->buffer\<close> first: with no reply attached
  the result is \<open>None\<close>.\<close>

definition iter_handlereply ::
  "module_env \<Rightarrow> module_qstate \<Rightarrow> outbound_entry option \<Rightarrow> (bool \<times> module_qstate) option" where
  "iter_handlereply env qstate outbound =
     (case reply qstate of
        None \<Rightarrow> None
      | Some rbuf \<Rightarrow>
          (let us = udp_size (edns qstate) in
           case reply_info_parse env rbuf of
             None \<Rightarrow> Some (False, qstate)
           | Some (reply_qinfo, reply_msg, reply_edns) \<Rightarrow>
               (let edns1 = handlereply_edns env (edns qstate);
                    qstate1 = qstate\<lparr>edns := edns1\<rparr>;
                    (ok, b) = reply_info_answer_encode env reply_qinfo reply_msg 0
                                (query_flags qstate1) (buf qstate1) 0 False us edns1;
                    qstate2 = qstate1\<lparr>buf := b\<rparr>
                in if \<not> ok then Some (False, qstate2)
                   else Some (True,
                          (called (Dns_cache_store_msg reply_qinfo (query_hash qstate2) reply_msg)
                             qstate2)\<lparr>ext_state := module_finished\<rparr>))))"

definition perform_forward ::
  "module_env \<Rightarrow> module_qstate \<Rightarrow> module_ev \<Rightarrow> outbound_entry option \<Rightarrow> module_qstate option" where
  "perform_forward env qstate event outbound =
     (if event = module_event_new
      then (case fwd_new env qstate of
              (False, qstate1) \<Rightarrow> Some (qstate1\<lparr>ext_state := module_error\<rparr>)
            | (True, qstate1) \<Rightarrow> Some qstate1)
      else if outbound = None then Some (qstate\<lparr>ext_state := module_error\<rparr>)
      else if event = module_event_timeout \<or> event = module_event_error
      then Some (qstate\<lparr>ext_state := module_error\<rparr>)
      else if event = module_event_reply
      then (case iter_handlereply env qstate outbound of
              None \<Rightarrow> None
            | Some (False, qstate1) \<Rightarrow> Some (qstate1\<lparr>ext_state := module_error\<rparr>)
            | Some (True, qstate1) \<Rightarrow> Some qstate1)
      else Some ((called (Log_err ''bad event for iterator[forwarding]'') qstate)
                   \<lparr>ext_state := module_error\<rparr>))"

subsection \<open>The operation of the module\<close>

text \<open>\<^verbatim>\<open>iter_operate\<close>. The iterator state lives in \<^verbatim>\<open>minfo[id]\<close>: what the state machine
  leaves in it is written back to that slot. A reply event with an empty slot reads
  through \<^verbatim>\<open>NULL\<close> in \<^verbatim>\<open>process_response\<close>.\<close>

definition iter_operate ::
  "module_env \<Rightarrow> module_qstate \<Rightarrow> module_ev \<Rightarrow> outbound_entry option \<Rightarrow> module_qstate option" where
  "iter_operate env qstate event outbound =
     (let ie = modinfo env in
      if fwd_addrlen ie \<noteq> 0 then perform_forward env qstate event outbound
      else if event = module_event_new
      then (case iter_new (called (Log_info ''iter state machine'') qstate) of
              (False, qstate1) \<Rightarrow> Some (qstate1\<lparr>ext_state := module_error\<rparr>)
            | (True, qstate1) \<Rightarrow>
                (case minfo qstate1 of
                   None \<Rightarrow> None
                 | Some iq \<Rightarrow>
                     map_option (\<lambda>(qstate2, iq2). qstate2\<lparr>minfo := Some iq2\<rparr>)
                       (process_request env qstate1 iq ie)))
      else if event = module_event_reply
      then (case minfo qstate of
              None \<Rightarrow> None
            | Some iq \<Rightarrow>
                map_option (\<lambda>(qstate2, iq2). qstate2\<lparr>minfo := Some iq2\<rparr>)
                  (process_response env qstate iq ie outbound))
      else Some ((called (Log_err ''bad event for iterator'') qstate)
                   \<lparr>ext_state := module_error\<rparr>))"

subsection \<open>Notions used to state the properties\<close>

text \<open>The next \<open>n\<close> allocations of a region all return memory.\<close>

definition allocs_succeed :: "nat \<Rightarrow> bool list \<Rightarrow> bool" where
  "allocs_succeed n r = (n \<le> length r \<and> list_all id (take n r))"

text \<open>The record sets of a reply: the array \<^verbatim>\<open>rrsets\<close> is read up to \<^verbatim>\<open>rrset_count\<close>, as the
  \<^verbatim>\<open>memcpy\<close> of \<^verbatim>\<open>iter_prepend\<close> reads it.\<close>

definition counted_rrsets :: "reply_info \<Rightarrow> ub_packed_rrset_key list" where
  "counted_rrsets rp = take (rrset_count rp) (rrsets rp)"

text \<open>The calls that consult the cache (message or delegation), and the calls that send
  a query.\<close>

fun is_lookup :: "call \<Rightarrow> bool" where
  "is_lookup (Dns_cache_lookup n l t c cd) = True"
| "is_lookup (Dns_cache_find_delegation n l c) = True"
| "is_lookup _ = False"

fun is_send :: "call \<Rightarrow> bool" where
  "is_send (Send_query n l t c f ds a al) = True"
| "is_send _ = False"

text \<open>The wire format of a domain name: each label preceded by its length, the root label
  (a zero byte) last.\<close>

fun dname_wire :: "8 word list list \<Rightarrow> dname" where
  "dname_wire [] = [0]"
| "dname_wire (l # ls) = of_nat (length l) # l @ dname_wire ls"

subsection \<open>A concrete resolver\<close>

text \<open>An environment with the values that the DNS and the resolver's headers give to the
  macros, a cache that holds one message, an address record for \<^verbatim>\<open>example.com\<close>, and one
  delegation, for the zone \<^verbatim>\<open>example.com\<close>. Its encoder writes a header and the query name
  and fails when they do not fit the size that the client advertised.\<close>

definition lab_example :: "8 word list" where
  "lab_example = [101, 120, 97, 109, 112, 108, 101]"

definition lab_com :: "8 word list" where
  "lab_com = [99, 111, 109]"

definition lab_child :: "8 word list" where
  "lab_child = [99, 104, 105, 108, 100]"

definition example_com :: dname where
  "example_com = dname_wire [lab_example, lab_com]"

definition child_example_com :: dname where
  "child_example_com = dname_wire [lab_child, lab_example, lab_com]"

definition rrset_of :: "dname \<Rightarrow> 16 word \<Rightarrow> nat \<Rightarrow> ub_packed_rrset_key" where
  "rrset_of n t a = \<lparr>rk = \<lparr>dname = n, rr_type = t, rr_class = 1\<rparr>, entry_data = a\<rparr>"

definition example_msg :: dns_msg where
  "example_msg = \<lparr>rep = \<lparr>rrsets = [rrset_of example_com 1 100], rrset_count = 1\<rparr>\<rparr>"

definition example_env :: module_env where
  "example_env =
     \<lparr>MAX_RESTART_COUNT = 8,
      LDNS_RR_TYPE_DS = 43,
      LDNS_RCODE_SERVFAIL = 2,
      BIT_CD = 0x10,
      EDNS_DO = 0x8000,
      EDNS_ADVERTISED_VERSION = 0,
      EDNS_ADVERTISED_SIZE = 4096,
      LDNS_RCODE_SET = (\<lambda>b r. b[3 := (b ! 3 AND 0xF0) OR of_int r]),
      LDNS_QR_SET = (\<lambda>b. b[2 := b ! 2 OR 0x80]),
      qinfo_query_encode = (\<lambda>b qi. [0, 0, 0, 0, 0, 1, 0, 0, 0, 0, 0, 0] @ qname qi),
      reply_info_answer_encode =
        (\<lambda>qi rp qid fl b now cached us e.
           (12 + length (qname qi) \<le> unat us,
            [0, 0, 0x80, 0, 0, 1, 0, of_nat (rrset_count rp), 0, 0, 0, 0] @ qname qi)),
      reply_info_parse =
        (\<lambda>b. if length b < 12 then None
             else Some (\<lparr>qname = drop 12 b, qname_len = of_nat (length b - 12), qtype = 1,
                          qclass = 1, has_cd = False\<rparr>,
                        \<lparr>rrsets = [rrset_of (drop 12 b) 1 200], rrset_count = 1\<rparr>,
                        \<lparr>edns_present = False, ext_rcode = 0, edns_version = 0, bits = 0,
                         udp_size = 512\<rparr>)),
      dns_cache_lookup =
        (\<lambda>n l t c cd. if n = example_com \<and> t = 1 \<and> c = 1 then Some example_msg else None),
      dns_cache_find_delegation =
        (\<lambda>n l c. if (n = example_com \<or> n = child_example_com) \<and> c = 1 then Some 1
                 else None),
      send_query = (\<lambda>n l t c f ds a al. if al = 0 then None else Some 7),
      module_subreq_depth = (\<lambda>q. 0),
      time_now = 0,
      uninit = rrset_of [] 0 0,
      modinfo = \<lparr>max_dependency_depth = 4, fwd_addr = [], fwd_addrlen = 0\<rparr>\<rparr>"

text \<open>The same resolver with a forward address.\<close>

definition example_fwd_env :: module_env where
  "example_fwd_env =
     example_env\<lparr>modinfo :=
       \<lparr>max_dependency_depth = 4, fwd_addr = [192, 0, 2, 53], fwd_addrlen = 16\<rparr>\<rparr>"

text \<open>A client query for the address of \<^verbatim>\<open>example.com\<close>, before the module has seen it, and
  the iterator state that \<^verbatim>\<open>iter_new\<close> and \<^verbatim>\<open>process_request\<close> give it.\<close>

definition example_qstate :: module_qstate where
  "example_qstate =
     \<lparr>qinfo = \<lparr>qname = example_com, qname_len = 13, qtype = 1, qclass = 1, has_cd = False\<rparr>,
      query_hash = 0,
      query_flags = 0x100,
      edns = \<lparr>edns_present = False, ext_rcode = 0, edns_version = 0, bits = 0,
               udp_size = 512\<rparr>,
      reply = None,
      buf = [],
      region = [True, True, True],
      minfo = None,
      ext_state = module_state_other,
      calls = []\<rparr>"

definition example_iq :: iter_qstate where
  "example_iq =
     zeroed_iter_qstate\<lparr>final_state := FINISHED_STATE, num_target_queries := - 1,
                          orig_qflags := 0x100\<rparr>"

text \<open>A query for the DS record of \<^verbatim>\<open>child.example.com\<close> and one for the DS record of the
  root.\<close>

definition example_ds_qstate :: module_qstate where
  "example_ds_qstate =
     example_qstate\<lparr>qinfo :=
       \<lparr>qname = child_example_com, qname_len = 19, qtype = 43, qclass = 1, has_cd = False\<rparr>\<rparr>"

definition example_root_ds_qstate :: module_qstate where
  "example_root_ds_qstate =
     example_qstate\<lparr>qinfo :=
       \<lparr>qname = dname_wire [], qname_len = 1, qtype = 43, qclass = 1, has_cd = False\<rparr>\<rparr>"

text \<open>Two entries of a prepend list and two record sets of a message.\<close>

definition entry_A :: packed_rrset where
  "entry_A = \<lparr>rrset_k = \<lparr>dname = [1, 97, 0], rr_type = 5, rr_class = 1\<rparr>, rrset_d = 10\<rparr>"

definition entry_B :: packed_rrset where
  "entry_B = \<lparr>rrset_k = \<lparr>dname = [1, 98, 0], rr_type = 5, rr_class = 1\<rparr>, rrset_d = 11\<rparr>"

definition set_C :: ub_packed_rrset_key where
  "set_C = rrset_of [1, 99, 0] 1 12"

definition set_D :: ub_packed_rrset_key where
  "set_D = rrset_of [1, 100, 0] 1 13"

definition msg_CD :: dns_msg where
  "msg_CD = \<lparr>rep = \<lparr>rrsets = [set_C, set_D], rrset_count = 2\<rparr>\<rparr>"

definition iq_AB :: iter_qstate where
  "iq_AB = example_iq\<lparr>prepend_list := [entry_A, entry_B]\<rparr>"

text \<open>An address query for \<^verbatim>\<open>child.example.com\<close>, one for \<^verbatim>\<open>example.org\<close>, of which the
  cache knows nothing, and the query for \<^verbatim>\<open>example.com\<close> from a client that accepts 20 bytes
  only.\<close>

definition example_child_qstate :: module_qstate where
  "example_child_qstate =
     example_qstate\<lparr>qinfo :=
       \<lparr>qname = child_example_com, qname_len = 19, qtype = 1, qclass = 1, has_cd = False\<rparr>\<rparr>"

definition example_org_qstate :: module_qstate where
  "example_org_qstate =
     example_qstate\<lparr>qinfo :=
       \<lparr>qname = dname_wire [lab_example, [111, 114, 103]], qname_len = 13, qtype = 1,
        qclass = 1, has_cd = False\<rparr>\<rparr>"

definition example_tight_qstate :: module_qstate where
  "example_tight_qstate =
     example_qstate\<lparr>edns := \<lparr>edns_present = False, ext_rcode = 0, edns_version = 0, bits = 0,
                               udp_size = 20\<rparr>\<rparr>"

subsection \<open>Abbreviations for the cache lookup of a query\<close>

abbreviation lookup_call :: "query_info \<Rightarrow> call" where
  "lookup_call qi \<equiv> Dns_cache_lookup (qname qi) (qname_len qi) (qtype qi) (qclass qi) (has_cd qi)"

abbreviation cached :: "module_env \<Rightarrow> query_info \<Rightarrow> dns_msg option" where
  "cached env qi \<equiv>
     dns_cache_lookup env (qname qi) (qname_len qi) (qtype qi) (qclass qi) (has_cd qi)"

text \<open>The call that forwards a query, with the flags that \<^verbatim>\<open>fwd_new\<close> computes, and what
  \<^verbatim>\<open>send_query\<close> returns for it.\<close>

abbreviation forward_flags :: "module_env \<Rightarrow> query_info \<Rightarrow> 16 word" where
  "forward_flags env qi \<equiv> (if has_cd qi then BIT_CD env else 0)"

abbreviation forward_call :: "module_env \<Rightarrow> query_info \<Rightarrow> call" where
  "forward_call env qi \<equiv>
     Send_query (qname qi) (qname_len qi) (qtype qi) (qclass qi) (forward_flags env qi) 1
       (fwd_addr (modinfo env)) (fwd_addrlen (modinfo env))"

abbreviation forward_sent :: "module_env \<Rightarrow> query_info \<Rightarrow> outbound_entry option" where
  "forward_sent env qi \<equiv>
     send_query env (qname qi) (qname_len qi) (qtype qi) (qclass qi) (forward_flags env qi) 1
       (fwd_addr (modinfo env)) (fwd_addrlen (modinfo env))"

text \<open>A reply of the forwarder and the forwarded query waiting for it.\<close>

definition example_reply :: ldns_buffer where
  "example_reply = [0, 0, 0x80, 0, 0, 1, 0, 1, 0, 0, 0, 0] @ example_com"

definition example_waiting_qstate :: module_qstate where
  "example_waiting_qstate =
     example_qstate\<lparr>reply := Some example_reply,
                    region := [True, True],
                    minfo := Some (zeroed_iter_qstate\<lparr>outlist := [7]\<rparr>),
                    ext_state := module_wait_reply,
                    calls := [Send_query example_com 13 1 1 0 1 [192, 0, 2, 53] 16]\<rparr>"

section \<open>Properties\<close>

lemmas example_defs =
  example_env_def example_fwd_env_def example_qstate_def example_iq_def example_msg_def
  example_com_def child_example_com_def lab_example_def lab_com_def lab_child_def
  rrset_of_def zeroed_iter_qstate_def example_ds_qstate_def example_root_ds_qstate_def
  entry_A_def entry_B_def set_C_def set_D_def msg_CD_def iq_AB_def example_child_qstate_def

subsection \<open>Region allocation and the splice\<close>

lemma prepend_fill_Some:
  "prepend_fill ps sets num r = (Some sets', r')
   \<Longrightarrow> num + length ps \<le> length sets
   \<Longrightarrow> sets' = take num sets @ map prepended ps @ drop (num + length ps) sets"
proof (induction ps arbitrary: sets num r)
  case Nil
  then show ?case by simp
next
  case (Cons p ps)
  obtain ok r1 where ra: "region_alloc r = (ok, r1)" by (cases "region_alloc r")
  with Cons.prems(1) have ok: ok by (cases ok) auto
  with ra Cons.prems(1)
  have rec: "prepend_fill ps (sets[num := prepended p]) (Suc num) r1 = (Some sets', r')"
    by simp
  from Cons.prems(2) have len: "Suc num + length ps \<le> length (sets[num := prepended p])"
    by simp
  from Cons.IH [OF rec len]
  have "sets' = take (Suc num) (sets[num := prepended p]) @ map prepended ps
                  @ drop (Suc num + length ps) (sets[num := prepended p])" .
  moreover from Cons.prems(2) have "num < length sets" by simp
  ultimately show ?case
    by (simp add: take_Suc_conv_app_nth)
qed

lemma prepend_fill_region:
  "prepend_fill ps sets num r = (res, r')
   \<Longrightarrow> (res \<noteq> None) = allocs_succeed (length ps) r"
proof (induction ps arbitrary: sets num r)
  case Nil
  then show ?case by (auto simp: allocs_succeed_def)
next
  case (Cons p ps)
  show ?case
  proof (cases r)
    case Nil
    with Cons.prems show ?thesis by (auto simp: allocs_succeed_def)
  next
    case (Cons b bs)
    with Cons.prems Cons.IH show ?thesis
      by (cases b) (auto simp: allocs_succeed_def split: prod.splits)
  qed
qed

lemma allocs_succeed_Suc:
  "allocs_succeed (Suc n) r = (\<exists>bs. r = True # bs \<and> allocs_succeed n bs)"
  by (cases r) (auto simp: allocs_succeed_def)

lemma iter_prepend_ok_iff:
  assumes "prepend_list iq \<noteq> []"
  shows "fst (iter_prepend env iq msg r) = allocs_succeed (Suc (length (prepend_list iq))) r"
proof (cases r)
  case Nil
  with assms show ?thesis by (simp add: iter_prepend_def allocs_succeed_def)
next
  case (Cons b bs)
  show ?thesis
  proof (cases b)
    case False
    with Cons assms show ?thesis by (simp add: iter_prepend_def allocs_succeed_def)
  next
    case True
    let ?num = "length (prepend_list iq)"
    let ?sets1 = "take ?num (replicate (?num + rrset_count (rep msg)) (uninit env))
                    @ take (rrset_count (rep msg)) (rrsets (rep msg))"
    obtain res r2 where pf: "prepend_fill (prepend_list iq) ?sets1 0 bs = (res, r2)"
      by (cases "prepend_fill (prepend_list iq) ?sets1 0 bs")
    from prepend_fill_region [OF pf] have "(res \<noteq> None) = allocs_succeed ?num bs" .
    with Cons True assms pf show ?thesis
      by (cases res) (simp_all add: iter_prepend_def Let_def allocs_succeed_Suc)
  qed
qed

lemma iter_prepend_failed_msg:
  "iter_prepend env iq msg r = (False, msg', r') \<Longrightarrow> msg' = msg"
  by (auto simp: iter_prepend_def Let_def split: if_splits prod.splits bool.splits option.splits)

lemma iter_prepend_rrsets:
  assumes wf: "length (rrsets (rep msg)) = rrset_count (rep msg)"
      and ok: "iter_prepend env iq msg r = (True, msg', r')"
  shows "rrsets (rep msg') =
           map (\<lambda>p. \<lparr>rk = rrset_k p, entry_data = rrset_d p\<rparr>) (prepend_list iq)
             @ rrsets (rep msg)"
proof (cases "prepend_list iq = []")
  case True
  with ok show ?thesis by (simp add: iter_prepend_def)
next
  case False
  let ?num = "length (prepend_list iq)"
  let ?sets1 = "take ?num (replicate (?num + rrset_count (rep msg)) (uninit env))
                  @ take (rrset_count (rep msg)) (rrsets (rep msg))"
  from False ok obtain r1 sets where
    pf: "prepend_fill (prepend_list iq) ?sets1 0 r1 = (Some sets, r')" and
    msg': "msg' = msg\<lparr>rep := (rep msg)\<lparr>rrsets := sets\<rparr>\<rparr>"
    by (auto simp: iter_prepend_def Let_def split: prod.splits bool.splits option.splits)
  have len: "0 + length (prepend_list iq) \<le> length ?sets1" by simp
  from prepend_fill_Some [OF pf len] wf
  have "sets = map prepended (prepend_list iq) @ rrsets (rep msg)" by simp
  moreover have "map prepended (prepend_list iq)
                   = map (\<lambda>p. \<lparr>rk = rrset_k p, entry_data = rrset_d p\<rparr>) (prepend_list iq)"
    by (simp add: prepended_def)
  ultimately show ?thesis using msg' by simp
qed

lemma iter_prepend_count:
  "iter_prepend env iq msg r = (ok, msg', r')
   \<Longrightarrow> rrset_count (rep msg') = rrset_count (rep msg)"
  by (auto simp: iter_prepend_def Let_def split: if_splits prod.splits bool.splits option.splits)

lemma iter_prepend_counted:
  assumes wf: "length (rrsets (rep msg)) = rrset_count (rep msg)"
      and ok: "iter_prepend env iq msg r = (True, msg', r')"
  shows "counted_rrsets (rep msg') =
           take (rrset_count (rep msg))
             (map (\<lambda>p. \<lparr>rk = rrset_k p, entry_data = rrset_d p\<rparr>) (prepend_list iq)
                @ rrsets (rep msg))"
  using iter_prepend_rrsets [OF wf ok] iter_prepend_count [OF ok]
  by (simp add: counted_rrsets_def)

text \<open>
  Claim C5. The prepend list holds the entries A and B, the message the record sets C
  and D, and every allocation succeeds. \<^verbatim>\<open>iter_prepend\<close> installs an array that holds the
  copies of A and B and then C and D, in that order, but it leaves \<^verbatim>\<open>rrset_count\<close> at 2.
  The record sets of the message after the splice, the first \<^verbatim>\<open>rrset_count\<close> elements of
  its array, are therefore the copies of A and B alone: the record sets C and D that the
  message had are no longer among them, and the assembled order A, B, C, D is not
  reached.
\<close>

theorem spliced_message_keeps_old_count:
  "iter_prepend example_env iq_AB msg_CD [True, True, True] =
     (True,
      \<lparr>rep = \<lparr>rrsets = [\<lparr>rk = \<lparr>dname = [1, 97, 0], rr_type = 5, rr_class = 1\<rparr>,
                           entry_data = 10\<rparr>,
                          \<lparr>rk = \<lparr>dname = [1, 98, 0], rr_type = 5, rr_class = 1\<rparr>,
                           entry_data = 11\<rparr>,
                          \<lparr>rk = \<lparr>dname = [1, 99, 0], rr_type = 1, rr_class = 1\<rparr>,
                           entry_data = 12\<rparr>,
                          \<lparr>rk = \<lparr>dname = [1, 100, 0], rr_type = 1, rr_class = 1\<rparr>,
                           entry_data = 13\<rparr>],
               rrset_count = 2\<rparr>\<rparr>,
      [])
   \<and> counted_rrsets (rep (fst (snd (iter_prepend example_env iq_AB msg_CD [True, True, True]))))
       = [\<lparr>rk = \<lparr>dname = [1, 97, 0], rr_type = 5, rr_class = 1\<rparr>, entry_data = 10\<rparr>,
          \<lparr>rk = \<lparr>dname = [1, 98, 0], rr_type = 5, rr_class = 1\<rparr>, entry_data = 11\<rparr>]
   \<and> set_C \<notin> set (counted_rrsets
                     (rep (fst (snd (iter_prepend example_env iq_AB msg_CD [True, True, True])))))
   \<and> set_D \<notin> set (counted_rrsets
                     (rep (fst (snd (iter_prepend example_env iq_AB msg_CD [True, True, True])))))
   \<and> counted_rrsets (rep msg_CD) = [set_C, set_D]"
proof -
  have v: "iter_prepend example_env iq_AB msg_CD [True, True, True] =
     (True,
      \<lparr>rep = \<lparr>rrsets = [\<lparr>rk = \<lparr>dname = [1, 97, 0], rr_type = 5, rr_class = 1\<rparr>,
                           entry_data = 10\<rparr>,
                          \<lparr>rk = \<lparr>dname = [1, 98, 0], rr_type = 5, rr_class = 1\<rparr>,
                           entry_data = 11\<rparr>,
                          \<lparr>rk = \<lparr>dname = [1, 99, 0], rr_type = 1, rr_class = 1\<rparr>,
                           entry_data = 12\<rparr>,
                          \<lparr>rk = \<lparr>dname = [1, 100, 0], rr_type = 1, rr_class = 1\<rparr>,
                           entry_data = 13\<rparr>],
               rrset_count = 2\<rparr>\<rparr>,
      [])"
    by (simp add: iter_prepend_def prepended_def iq_AB_def msg_CD_def example_iq_def
          zeroed_iter_qstate_def entry_A_def entry_B_def set_C_def set_D_def rrset_of_def
          Let_def numeral_2_eq_2)
  have c: "counted_rrsets (rep msg_CD) = [set_C, set_D]"
    by (simp add: counted_rrsets_def msg_CD_def)
  from v c show ?thesis
    by (simp add: counted_rrsets_def set_C_def set_D_def rrset_of_def)
qed

text \<open>
  Claim C10. \<^verbatim>\<open>iter_prepend\<close> with a non-empty prepend list makes one allocation for the
  array and one for each entry. If any of them fails, the function returns failure and
  the message is the one it was given: the new array is installed only after all the
  entries have been allocated and copied.
\<close>

theorem iter_prepend_alloc_failure:
  assumes "prepend_list iq \<noteq> []"
      and "\<not> allocs_succeed (Suc (length (prepend_list iq))) r"
  shows "\<exists>r'. iter_prepend env iq msg r = (False, msg, r')"
proof -
  obtain ok msg' r' where res: "iter_prepend env iq msg r = (ok, msg', r')"
    by (cases "iter_prepend env iq msg r")
  with iter_prepend_ok_iff [OF assms(1), of env msg r] assms(2) have "\<not> ok" by simp
  with res iter_prepend_failed_msg [of env iq msg r msg' r'] show ?thesis by auto
qed

text \<open>The allocation for the second of two entries fails.\<close>

theorem iter_prepend_alloc_failure_example:
  "prepend_list iq_AB \<noteq> []
   \<and> \<not> allocs_succeed (Suc (length (prepend_list iq_AB))) [True, True, False]
   \<and> iter_prepend example_env iq_AB msg_CD [True, True, False] = (False, msg_CD, [])"
proof -
  have 1: "prepend_list iq_AB \<noteq> []" by (simp add: iq_AB_def)
  have 2: "\<not> allocs_succeed (Suc (length (prepend_list iq_AB))) [True, True, False]"
    by (simp add: iq_AB_def allocs_succeed_def)
  have 3: "snd (snd (iter_prepend example_env iq_AB msg_CD [True, True, False])) = []"
    by (simp add: iter_prepend_def iq_AB_def msg_CD_def example_iq_def zeroed_iter_qstate_def
      Let_def numeral_2_eq_2)
  from iter_prepend_alloc_failure [OF 1 2, of example_env msg_CD] 1 2 3 show ?thesis by auto
qed

subsection \<open>Transitions, the error response and the initial handler\<close>

lemma next_state_eq:
  "next_state qstate iq s =
     (True,
      (if iter_state_is_responsestate s \<and> reply qstate = None
       then called (Log_err ''transitioning to response state sans response.'') qstate
       else qstate),
      iq\<lparr>state := s\<rparr>)"
  by (simp add: next_state_def)

lemma error_response_eq:
  "error_response env qstate iq rcode =
     next_state
       ((called (Log_info ''err response %s'') qstate)
          \<lparr>buf := LDNS_QR_SET env (LDNS_RCODE_SET env
                     (qinfo_query_encode env (buf qstate) (qinfo qstate)) rcode)\<rparr>)
       iq (iter_qstate.final_state iq)"
  by (simp add: error_response_def final_state_def called_def Let_def)

lemma error_response_props:
  "fst (error_response env qstate iq rcode) = True"
  "snd (snd (error_response env qstate iq rcode)) = iq\<lparr>state := iter_qstate.final_state iq\<rparr>"
  "buf (fst (snd (error_response env qstate iq rcode))) =
     LDNS_QR_SET env (LDNS_RCODE_SET env (qinfo_query_encode env (buf qstate) (qinfo qstate)) rcode)"
  "filter is_lookup (calls (fst (snd (error_response env qstate iq rcode))))
     = filter is_lookup (calls qstate)"
  "filter is_send (calls (fst (snd (error_response env qstate iq rcode))))
     = filter is_send (calls qstate)"
  by (simp_all add: error_response_eq next_state_eq called_def)

lemma iter_handle_continue:
  assumes "state iq = INIT_REQUEST_STATE"
      and "processInitRequest env qstate iq ie = Some (True, qstate', iq')"
  shows "iter_handle env qstate iq ie = iter_handle env qstate' iq' ie"
  using assms by (subst iter_handle.simps) simp

lemma iter_handle_suspend:
  assumes "state iq = INIT_REQUEST_STATE"
      and "processInitRequest env qstate iq ie = Some (False, qstate', iq')"
  shows "iter_handle env qstate iq ie = Some (qstate', iq')"
  using assms by (subst iter_handle.simps) simp

lemma iter_handle_other:
  assumes "state iq \<noteq> INIT_REQUEST_STATE"
  shows "iter_handle env qstate iq ie
           = Some (called (Log_warn ''iterator: invalid state: %d'') qstate, iq)"
  using assms by (subst iter_handle.simps) simp

lemma processInitRequest_hit:
  assumes "query_restart_count iq \<le> MAX_RESTART_COUNT env"
      and "module_subreq_depth env qstate \<le> max_dependency_depth ie"
      and "cached env (qinfo qstate) = Some msg"
  shows "processInitRequest env qstate iq ie =
           Some (True,
                 called (lookup_call (qinfo qstate)) qstate,
                 iq\<lparr>query_restart_count := query_restart_count iq + 1,
                    state := INIT_REQUEST_STATE\<rparr>)"
  using assms by (simp add: processInitRequest_def Let_def next_state_eq)

lemma processInitRequest_miss:
  assumes "query_restart_count iq \<le> MAX_RESTART_COUNT env"
      and "module_subreq_depth env qstate \<le> max_dependency_depth ie"
      and "cached env (qinfo qstate) = None"
      and "delname_adjust env (qinfo qstate) = Some (delname, delnamelen)"
  shows "processInitRequest env qstate iq ie =
           (let found = dns_cache_find_delegation env delname delnamelen (qclass (qinfo qstate));
                qstate2 =
                  called (Dns_cache_find_delegation delname delnamelen (qclass (qinfo qstate)))
                    (called (lookup_call (qinfo qstate)) qstate)
            in if found = None then Some (False, qstate2, iq\<lparr>dp := None\<rparr>)
               else Some (True, qstate2, iq\<lparr>dp := found, state := INIT_REQUEST_2_STATE\<rparr>))"
  using assms by (simp add: processInitRequest_def Let_def next_state_eq called_def)

lemma processInitRequest_over:
  assumes "MAX_RESTART_COUNT env < query_restart_count iq"
  shows "processInitRequest env qstate iq ie
           = Some (error_response env qstate iq (LDNS_RCODE_SERVFAIL env))"
  using assms by (simp add: processInitRequest_def)

text \<open>
  Claim C2. When the restart count and the dependency depth are within their limits and
  the cache returns a message for the query, \<^verbatim>\<open>processInitRequest\<close> increments
  \<^verbatim>\<open>query_restart_count\<close> by exactly one, sets the state to the initial state and returns
  true; \<^verbatim>\<open>iter_handle\<close> then runs the handler again at once. The handler does not look at
  the type of the message, so this holds for a CNAME or DNAME answer like for every other
  cached message.
\<close>

theorem cache_hit_restarts:
  assumes "query_restart_count iq \<le> MAX_RESTART_COUNT env"
      and "module_subreq_depth env qstate \<le> max_dependency_depth ie"
      and "cached env (qinfo qstate) = Some msg"
  shows "processInitRequest env qstate iq ie =
           Some (True,
                 called (lookup_call (qinfo qstate)) qstate,
                 iq\<lparr>query_restart_count := query_restart_count iq + 1,
                    state := INIT_REQUEST_STATE\<rparr>)
         \<and> (state iq = INIT_REQUEST_STATE \<longrightarrow>
              iter_handle env qstate iq ie =
                iter_handle env
                  (called (lookup_call (qinfo qstate)) qstate)
                  (iq\<lparr>query_restart_count := query_restart_count iq + 1,
                      state := INIT_REQUEST_STATE\<rparr>) ie)"
  using processInitRequest_hit [OF assms] iter_handle_continue by blast

text \<open>The address query for \<^verbatim>\<open>example.com\<close>, whose answer is in the cache.\<close>

theorem cache_hit_restarts_example:
  "query_restart_count example_iq \<le> MAX_RESTART_COUNT example_env
   \<and> module_subreq_depth example_env example_qstate \<le> max_dependency_depth (modinfo example_env)
   \<and> cached example_env (qinfo example_qstate) = Some example_msg
   \<and> state example_iq = INIT_REQUEST_STATE
   \<and> processInitRequest example_env example_qstate example_iq (modinfo example_env) =
        Some (True,
              example_qstate\<lparr>calls := [Dns_cache_lookup example_com 13 1 1 False]\<rparr>,
              example_iq\<lparr>query_restart_count := 1\<rparr>)
   \<and> iter_handle example_env example_qstate example_iq (modinfo example_env) =
        iter_handle example_env
          (example_qstate\<lparr>calls := [Dns_cache_lookup example_com 13 1 1 False]\<rparr>)
          (example_iq\<lparr>query_restart_count := 1\<rparr>) (modinfo example_env)"
proof -
  have h: "query_restart_count example_iq \<le> MAX_RESTART_COUNT example_env"
    "module_subreq_depth example_env example_qstate \<le> max_dependency_depth (modinfo example_env)"
    "cached example_env (qinfo example_qstate) = Some example_msg"
    by (simp_all add: example_defs)
  have st: "state example_iq = INIT_REQUEST_STATE"
    by (simp add: example_iq_def zeroed_iter_qstate_def)
  have e: "example_iq\<lparr>query_restart_count := query_restart_count example_iq + 1,
                       state := INIT_REQUEST_STATE\<rparr> = example_iq\<lparr>query_restart_count := 1\<rparr>"
    "called (lookup_call (qinfo example_qstate)) example_qstate
       = example_qstate\<lparr>calls := [Dns_cache_lookup example_com 13 1 1 False]\<rparr>"
    by (simp_all add: called_def example_qstate_def example_iq_def zeroed_iter_qstate_def)
  from cache_hit_restarts [OF h] st h e show ?thesis by simp
qed

text \<open>
  Claim C3, amended. When \<^verbatim>\<open>query_restart_count\<close> exceeds \<^verbatim>\<open>MAX_RESTART_COUNT\<close>, the handler
  writes the SERVFAIL error response (the query encoded, the response code set, the
  response flag set), moves to the final state of the query and consults the cache
  neither for the message nor for a delegation. At the maximum itself the handler
  proceeds as usual (last theorem of this claim below).
\<close>

theorem restart_limit_exceeded:
  assumes "MAX_RESTART_COUNT env < query_restart_count iq"
  shows "\<exists>qstate'. processInitRequest env qstate iq ie =
           Some (True, qstate', iq\<lparr>state := iter_qstate.final_state iq\<rparr>)
         \<and> buf qstate' =
             LDNS_QR_SET env (LDNS_RCODE_SET env
               (qinfo_query_encode env (buf qstate) (qinfo qstate)) (LDNS_RCODE_SERVFAIL env))
         \<and> filter is_lookup (calls qstate') = filter is_lookup (calls qstate)"
proof -
  obtain c q' iq' where er:
    "error_response env qstate iq (LDNS_RCODE_SERVFAIL env) = (c, q', iq')"
    by (cases "error_response env qstate iq (LDNS_RCODE_SERVFAIL env)")
  with error_response_props [of env qstate iq "LDNS_RCODE_SERVFAIL env"]
  have "c = True" "iq' = iq\<lparr>state := iter_qstate.final_state iq\<rparr>"
       "buf q' = LDNS_QR_SET env (LDNS_RCODE_SET env
               (qinfo_query_encode env (buf qstate) (qinfo qstate)) (LDNS_RCODE_SERVFAIL env))"
       "filter is_lookup (calls q') = filter is_lookup (calls qstate)"
    by simp_all
  with er processInitRequest_over [OF assms, of qstate ie] show ?thesis by simp
qed

theorem restart_limit_exceeded_example:
  "MAX_RESTART_COUNT example_env < query_restart_count (example_iq\<lparr>query_restart_count := 9\<rparr>)
   \<and> processInitRequest example_env example_qstate (example_iq\<lparr>query_restart_count := 9\<rparr>)
        (modinfo example_env)
      = Some (True,
              example_qstate
                \<lparr>buf := [0, 0, 0x80, 2, 0, 1, 0, 0, 0, 0, 0, 0] @ example_com,
                 calls := [Log_info ''err response %s'',
                           Log_err ''transitioning to response state sans response.'']\<rparr>,
              example_iq\<lparr>query_restart_count := 9, state := FINISHED_STATE\<rparr>)"
  using restart_limit_exceeded [of example_env "example_iq\<lparr>query_restart_count := 9\<rparr>"
      example_qstate "modinfo example_env"]
  by (simp add: processInitRequest_def error_response_eq next_state_eq called_def example_defs)

theorem at_restart_limit_counterexample:
  "query_restart_count (example_iq\<lparr>query_restart_count := 8\<rparr>) = MAX_RESTART_COUNT example_env
   \<and> processInitRequest example_env example_child_qstate
        (example_iq\<lparr>query_restart_count := 8\<rparr>) (modinfo example_env)
      = Some (True,
              example_child_qstate
                \<lparr>calls := [Dns_cache_lookup child_example_com 19 1 1 False,
                           Dns_cache_find_delegation child_example_com 19 1]\<rparr>,
              example_iq\<lparr>query_restart_count := 8, dp := Some 1,
                         state := INIT_REQUEST_2_STATE\<rparr>)"
  by (simp add: processInitRequest_def delname_adjust_def next_state_eq called_def Let_def
        example_defs)

text \<open>
  Claim C4, amended. When the target of a transition is a response state and no reply is
  attached to the query, \<^verbatim>\<open>next_state\<close> logs an error and then performs the transition
  and returns true, as it does when a reply is attached. The last theorem below shows
  such a transition being performed.
\<close>

theorem response_state_without_response:
  assumes "iter_state_is_responsestate nextstate"
      and "reply qstate = None"
  shows "next_state qstate iq nextstate =
           (True,
            called (Log_err ''transitioning to response state sans response.'') qstate,
            iq\<lparr>state := nextstate\<rparr>)"
  using assms by (simp add: next_state_def)

theorem response_state_without_response_example:
  "iter_state_is_responsestate FINISHED_STATE
   \<and> reply example_qstate = None
   \<and> next_state example_qstate example_iq FINISHED_STATE =
        (True,
         example_qstate\<lparr>calls := [Log_err ''transitioning to response state sans response.'']\<rparr>,
         example_iq\<lparr>state := FINISHED_STATE\<rparr>)"
  using response_state_without_response [of FINISHED_STATE example_qstate example_iq]
  by (simp add: called_def example_qstate_def)

theorem transition_proceeds_counterexample:
  "reply example_qstate = None
   \<and> iter_state_is_responsestate QUERY_RESP_STATE
   \<and> fst (next_state example_qstate example_iq QUERY_RESP_STATE) = True
   \<and> state (snd (snd (next_state example_qstate example_iq QUERY_RESP_STATE))) = QUERY_RESP_STATE
   \<and> ext_state (fst (snd (next_state example_qstate example_iq QUERY_RESP_STATE)))
        = ext_state example_qstate
   \<and> snd (snd (next_state example_qstate example_iq QUERY_RESP_STATE))
        = snd (snd (next_state (example_qstate\<lparr>reply := Some []\<rparr>) example_iq QUERY_RESP_STATE))"
  by (simp add: next_state_def called_def example_qstate_def)

text \<open>
  Claim C8. On a cache miss, when the delegation lookup for the name computed from the
  query returns nothing, \<^verbatim>\<open>processInitRequest\<close> returns false and leaves the state as it
  was: it does not move to the second initial state, and \<^verbatim>\<open>iter_handle\<close> returns with the
  query still in the initial state.
\<close>

theorem no_delegation_suspends:
  assumes "query_restart_count iq \<le> MAX_RESTART_COUNT env"
      and "module_subreq_depth env qstate \<le> max_dependency_depth ie"
      and "cached env (qinfo qstate) = None"
      and "delname_adjust env (qinfo qstate) = Some (delname, delnamelen)"
      and "dns_cache_find_delegation env delname delnamelen (qclass (qinfo qstate)) = None"
  shows "processInitRequest env qstate iq ie =
           Some (False,
                 called (Dns_cache_find_delegation delname delnamelen (qclass (qinfo qstate)))
                   (called (lookup_call (qinfo qstate)) qstate),
                 iq\<lparr>dp := None\<rparr>)
         \<and> (state iq = INIT_REQUEST_STATE \<longrightarrow>
              map_option (state \<circ> snd) (iter_handle env qstate iq ie) = Some INIT_REQUEST_STATE)"
proof -
  from processInitRequest_miss [OF assms(1-4)] assms(5)
  have 1: "processInitRequest env qstate iq ie =
           Some (False,
                 called (Dns_cache_find_delegation delname delnamelen (qclass (qinfo qstate)))
                   (called (lookup_call (qinfo qstate)) qstate),
                 iq\<lparr>dp := None\<rparr>)"
    by simp
  show ?thesis
  proof (intro conjI impI)
    show "processInitRequest env qstate iq ie =
           Some (False,
                 called (Dns_cache_find_delegation delname delnamelen (qclass (qinfo qstate)))
                   (called (lookup_call (qinfo qstate)) qstate),
                 iq\<lparr>dp := None\<rparr>)"
      by (rule 1)
  next
    assume st: "state iq = INIT_REQUEST_STATE"
    from iter_handle_suspend [OF st 1] st
    show "map_option (state \<circ> snd) (iter_handle env qstate iq ie) = Some INIT_REQUEST_STATE"
      by simp
  qed
qed

theorem no_delegation_suspends_example:
  "query_restart_count example_iq \<le> MAX_RESTART_COUNT example_env
   \<and> module_subreq_depth example_env example_org_qstate
        \<le> max_dependency_depth (modinfo example_env)
   \<and> dns_cache_lookup example_env (qname (qinfo example_org_qstate)) 13 1 1 False = None
   \<and> delname_adjust example_env (qinfo example_org_qstate)
        = Some (qname (qinfo example_org_qstate), 13)
   \<and> dns_cache_find_delegation example_env (qname (qinfo example_org_qstate)) 13 1 = None
   \<and> processInitRequest example_env example_org_qstate example_iq (modinfo example_env) =
        Some (False,
              example_org_qstate
                \<lparr>calls := [Dns_cache_lookup (qname (qinfo example_org_qstate)) 13 1 1 False,
                           Dns_cache_find_delegation (qname (qinfo example_org_qstate)) 13 1]\<rparr>,
              example_iq)
   \<and> map_option (state \<circ> snd)
        (iter_handle example_env example_org_qstate example_iq (modinfo example_env))
        = Some INIT_REQUEST_STATE"
proof -
  have h: "query_restart_count example_iq \<le> MAX_RESTART_COUNT example_env"
    "module_subreq_depth example_env example_org_qstate
        \<le> max_dependency_depth (modinfo example_env)"
    "cached example_env (qinfo example_org_qstate) = None"
    "delname_adjust example_env (qinfo example_org_qstate)
        = Some (qname (qinfo example_org_qstate), 13)"
    "dns_cache_find_delegation example_env (qname (qinfo example_org_qstate)) 13
       (qclass (qinfo example_org_qstate)) = None"
    by (simp_all add: delname_adjust_def example_org_qstate_def example_defs)
  have q: "qname_len (qinfo example_org_qstate) = 13" "qtype (qinfo example_org_qstate) = 1"
    "qclass (qinfo example_org_qstate) = 1" "has_cd (qinfo example_org_qstate) = False"
    "calls example_org_qstate = []" "state example_iq = INIT_REQUEST_STATE"
    "dp example_iq = None"
    by (simp_all add: example_org_qstate_def example_defs)
  have e: "example_iq\<lparr>dp := None\<rparr> = example_iq"
    by (simp add: example_defs)
  from no_delegation_suspends [OF h] h q e show ?thesis
    by (simp add: called_def)
qed
lemma lablen_word:
  assumes "0 < n" and "n < 256"
  shows "(of_nat n :: 8 word) \<noteq> 0"
    and "unat ((ucast (of_nat n :: 8 word) :: 64 word) + 1) = Suc n"
proof -
  from assms have u: "unat (of_nat n :: 8 word) = n"
    by (simp add: unat_of_nat)
  with assms(1) show "(of_nat n :: 8 word) \<noteq> 0"
    by (metis unat_0 less_numeral_extra(3))
  from u assms(2) show "unat ((ucast (of_nat n :: 8 word) :: 64 word) + 1) = Suc n"
    by (simp add: unat_word_ariths unsigned_ucast_eq take_bit_eq_mod)
qed

lemma delname_adjust_label:
  assumes "qtype qi = LDNS_RR_TYPE_DS env"
      and "qname qi = dname_wire (l # ls)"
      and "0 < length l" and "length l < 256"
  shows "delname_adjust env qi
           = Some (dname_wire ls, qname_len qi - (of_nat (length l) + 1))"
proof -
  have "(ucast (of_nat (length l) :: 8 word) :: 64 word) = of_nat (length l)"
    using assms(4) by (simp add: unsigned_of_nat take_bit_eq_mod)
  with assms lablen_word [OF assms(3,4)] show ?thesis
    by (simp add: delname_adjust_def Let_def)
qed

lemma delname_adjust_root:
  assumes "qname qi = dname_wire []"
  shows "delname_adjust env qi = Some (qname qi, qname_len qi)"
  using assms by (simp add: delname_adjust_def)

lemma dname_wire_strip_neq: "dname_wire ls \<noteq> dname_wire (l # ls)"
proof
  assume "dname_wire ls = dname_wire (l # ls)"
  then have "length (dname_wire ls) = length (dname_wire (l # ls))" by simp
  then show False by simp
qed

text \<open>
  Claim C7. For a DS query that reaches the delegation lookup (limits respected, cache
  miss): if the name is a label of 1 to 255 bytes followed by a name, the delegation is
  looked up for the name without that label and a length reduced by the label and its
  length byte, and that name differs from the query name; if the name is the root, the
  delegation is looked up for the query name itself.
\<close>

theorem ds_delegation_name:
  assumes "qtype (qinfo qstate) = LDNS_RR_TYPE_DS env"
      and "query_restart_count iq \<le> MAX_RESTART_COUNT env"
      and "module_subreq_depth env qstate \<le> max_dependency_depth ie"
      and "cached env (qinfo qstate) = None"
  shows "(qname (qinfo qstate) = dname_wire (l # ls) \<and> 0 < length l \<and> length l < 256 \<longrightarrow>
            dname_wire ls \<noteq> qname (qinfo qstate)
            \<and> (\<exists>c iq'. processInitRequest env qstate iq ie =
                   Some (c,
                         called (Dns_cache_find_delegation (dname_wire ls)
                                   (qname_len (qinfo qstate) - (of_nat (length l) + 1))
                                   (qclass (qinfo qstate)))
                           (called (lookup_call (qinfo qstate)) qstate),
                         iq')))
         \<and> (qname (qinfo qstate) = dname_wire [] \<longrightarrow>
              (\<exists>c iq'. processInitRequest env qstate iq ie =
                   Some (c,
                         called (Dns_cache_find_delegation (qname (qinfo qstate))
                                   (qname_len (qinfo qstate)) (qclass (qinfo qstate)))
                           (called (lookup_call (qinfo qstate)) qstate),
                         iq')))"
proof (intro conjI impI)
  assume a: "qname (qinfo qstate) = dname_wire (l # ls) \<and> 0 < length l \<and> length l < 256"
  then show "dname_wire ls \<noteq> qname (qinfo qstate)"
    using dname_wire_strip_neq [of ls l] by simp
  from a assms(1) have
    "delname_adjust env (qinfo qstate)
       = Some (dname_wire ls, qname_len (qinfo qstate) - (of_nat (length l) + 1))"
    by (simp add: delname_adjust_label)
  from processInitRequest_miss [OF assms(2-4) this]
  show "\<exists>c iq'. processInitRequest env qstate iq ie =
          Some (c,
                called (Dns_cache_find_delegation (dname_wire ls)
                          (qname_len (qinfo qstate) - (of_nat (length l) + 1))
                          (qclass (qinfo qstate)))
                  (called (lookup_call (qinfo qstate)) qstate),
                iq')"
    by (auto simp: Let_def)
next
  assume "qname (qinfo qstate) = dname_wire []"
  then have "delname_adjust env (qinfo qstate)
               = Some (qname (qinfo qstate), qname_len (qinfo qstate))"
    by (rule delname_adjust_root)
  from processInitRequest_miss [OF assms(2-4) this]
  show "\<exists>c iq'. processInitRequest env qstate iq ie =
          Some (c,
                called (Dns_cache_find_delegation (qname (qinfo qstate))
                          (qname_len (qinfo qstate)) (qclass (qinfo qstate)))
                  (called (lookup_call (qinfo qstate)) qstate),
                iq')"
    by (auto simp: Let_def)
qed

theorem ds_delegation_name_example:
  "qtype (qinfo example_ds_qstate) = LDNS_RR_TYPE_DS example_env
   \<and> query_restart_count example_iq \<le> MAX_RESTART_COUNT example_env
   \<and> module_subreq_depth example_env example_ds_qstate
        \<le> max_dependency_depth (modinfo example_env)
   \<and> cached example_env (qinfo example_ds_qstate) = None
   \<and> qname (qinfo example_ds_qstate) = dname_wire (lab_child # [lab_example, lab_com])
   \<and> 0 < length lab_child \<and> length lab_child < 256
   \<and> processInitRequest example_env example_ds_qstate example_iq (modinfo example_env) =
        Some (True,
              example_ds_qstate
                \<lparr>calls := [Dns_cache_lookup child_example_com 19 43 1 False,
                           Dns_cache_find_delegation example_com 13 1]\<rparr>,
              example_iq\<lparr>dp := Some 1, state := INIT_REQUEST_2_STATE\<rparr>)
   \<and> qtype (qinfo example_root_ds_qstate) = LDNS_RR_TYPE_DS example_env
   \<and> cached example_env (qinfo example_root_ds_qstate) = None
   \<and> qname (qinfo example_root_ds_qstate) = dname_wire []
   \<and> processInitRequest example_env example_root_ds_qstate example_iq (modinfo example_env) =
        Some (False,
              example_root_ds_qstate
                \<lparr>calls := [Dns_cache_lookup [0] 1 43 1 False,
                           Dns_cache_find_delegation [0] 1 1]\<rparr>,
              example_iq)"
proof -
  have h: "qtype (qinfo example_ds_qstate) = LDNS_RR_TYPE_DS example_env"
    "query_restart_count example_iq \<le> MAX_RESTART_COUNT example_env"
    "module_subreq_depth example_env example_ds_qstate
        \<le> max_dependency_depth (modinfo example_env)"
    "cached example_env (qinfo example_ds_qstate) = None"
    by (simp_all add: example_defs)
  have g: "qname (qinfo example_ds_qstate) = dname_wire (lab_child # [lab_example, lab_com])
           \<and> 0 < length lab_child \<and> length lab_child < 256"
    by (simp add: example_defs)
  have r: "qtype (qinfo example_root_ds_qstate) = LDNS_RR_TYPE_DS example_env"
    "query_restart_count example_iq \<le> MAX_RESTART_COUNT example_env"
    "module_subreq_depth example_env example_root_ds_qstate
        \<le> max_dependency_depth (modinfo example_env)"
    "cached example_env (qinfo example_root_ds_qstate) = None"
    by (simp_all add: example_defs)
  have rn: "qname (qinfo example_root_ds_qstate) = dname_wire []"
    by (simp add: example_defs)
  have v1: "processInitRequest example_env example_ds_qstate example_iq (modinfo example_env) =
        Some (True,
              example_ds_qstate
                \<lparr>calls := [Dns_cache_lookup child_example_com 19 43 1 False,
                           Dns_cache_find_delegation example_com 13 1]\<rparr>,
              example_iq\<lparr>dp := Some 1, state := INIT_REQUEST_2_STATE\<rparr>)"
    by (simp add: processInitRequest_def delname_adjust_def next_state_eq called_def Let_def
        example_defs)
  have v2: "processInitRequest example_env example_root_ds_qstate example_iq
              (modinfo example_env) =
        Some (False,
              example_root_ds_qstate
                \<lparr>calls := [Dns_cache_lookup [0] 1 43 1 False,
                           Dns_cache_find_delegation [0] 1 1]\<rparr>,
              example_iq)"
    by (simp add: processInitRequest_def delname_adjust_def next_state_eq called_def Let_def
        example_defs)
  from ds_delegation_name [OF h, of lab_child "[lab_example, lab_com]"]
       ds_delegation_name [OF r, of lab_child "[]"]
       h g r rn v1 v2
  show ?thesis by simp
qed

lemma iter_encode_respmsg_splice_failed:
  assumes "prepend_list iq \<noteq> []"
      and "iter_prepend env iq msg (region qstate) = (False, msg1, r1)"
  shows "iter_encode_respmsg env qstate iq msg
           = snd (error_response env (qstate\<lparr>region := r1\<rparr>) iq (LDNS_RCODE_SERVFAIL env))"
  using assms by (simp add: iter_encode_respmsg_def)

lemma iter_encode_respmsg_encode_failed:
  assumes "(if prepend_list iq \<noteq> [] then iter_prepend env iq msg (region qstate)
            else (True, msg, region qstate)) = (True, msg1, r1)"
      and "reply_info_answer_encode env (respmsg_qinf qstate iq) (rep msg1) 0 (orig_qflags iq)
             (buf qstate) (time_now env) True (udp_size (edns qstate))
             (respmsg_edns env qstate) = (False, b)"
  shows "iter_encode_respmsg env qstate iq msg
           = snd (error_response env (qstate\<lparr>region := r1, buf := b\<rparr>) iq
                    (LDNS_RCODE_SERVFAIL env))"
  using assms by (simp add: iter_encode_respmsg_def respmsg_edns_def Let_def)

text \<open>
  Claim C9. When the splice of the prepend list fails, or the splice succeeds (or there
  is nothing to splice) and the encoder fails, \<^verbatim>\<open>iter_encode_respmsg\<close> leaves in the
  buffer the SERVFAIL error response and moves the query to its final state.
\<close>

theorem encode_failure_is_servfail:
  assumes splice: "(if prepend_list iq \<noteq> [] then iter_prepend env iq msg (region qstate)
                    else (True, msg, region qstate)) = (ok, msg1, r1)"
      and failed: "\<not> ok \<or>
                   \<not> fst (reply_info_answer_encode env (respmsg_qinf qstate iq) (rep msg1) 0
                            (orig_qflags iq) (buf qstate) (time_now env) True
                            (udp_size (edns qstate)) (respmsg_edns env qstate))"
  shows "\<exists>qstate' b0. iter_encode_respmsg env qstate iq msg
                          = (qstate', iq\<lparr>state := iter_qstate.final_state iq\<rparr>)
           \<and> buf qstate' = LDNS_QR_SET env (LDNS_RCODE_SET env
                               (qinfo_query_encode env b0 (qinfo qstate))
                               (LDNS_RCODE_SERVFAIL env))"
proof (cases ok)
  case False
  with splice have ne: "prepend_list iq \<noteq> []"
    and pf: "iter_prepend env iq msg (region qstate) = (False, msg1, r1)"
    by (auto split: if_splits)
  let ?er = "error_response env (qstate\<lparr>region := r1\<rparr>) iq (LDNS_RCODE_SERVFAIL env)"
  from iter_encode_respmsg_splice_failed [OF ne pf]
  have "iter_encode_respmsg env qstate iq msg = (fst (snd ?er), snd (snd ?er))" by simp
  then show ?thesis
    by (simp add: error_response_props) blast
next
  case True
  obtain ok2 b where enc:
    "reply_info_answer_encode env (respmsg_qinf qstate iq) (rep msg1) 0 (orig_qflags iq)
       (buf qstate) (time_now env) True (udp_size (edns qstate)) (respmsg_edns env qstate)
       = (ok2, b)"
    by (cases "reply_info_answer_encode env (respmsg_qinf qstate iq) (rep msg1) 0
                 (orig_qflags iq) (buf qstate) (time_now env) True (udp_size (edns qstate))
                 (respmsg_edns env qstate)")
  with failed True have "\<not> ok2" by simp
  with enc have enc': "reply_info_answer_encode env (respmsg_qinf qstate iq) (rep msg1) 0
       (orig_qflags iq) (buf qstate) (time_now env) True (udp_size (edns qstate))
       (respmsg_edns env qstate) = (False, b)"
    by simp
  from splice True have sp: "(if prepend_list iq \<noteq> [] then iter_prepend env iq msg (region qstate)
                    else (True, msg, region qstate)) = (True, msg1, r1)"
    by simp
  let ?er = "error_response env (qstate\<lparr>region := r1, buf := b\<rparr>) iq (LDNS_RCODE_SERVFAIL env)"
  from iter_encode_respmsg_encode_failed [OF sp enc']
  have "iter_encode_respmsg env qstate iq msg = (fst (snd ?er), snd (snd ?er))" by simp
  then show ?thesis
    by (simp add: error_response_props) blast
qed

theorem encode_failure_is_servfail_example:
  "(if prepend_list iq_AB \<noteq> []
    then iter_prepend example_env iq_AB msg_CD (region (example_qstate\<lparr>region := [True, False]\<rparr>))
    else (True, msg_CD, region (example_qstate\<lparr>region := [True, False]\<rparr>)))
     = (False, msg_CD, [])
   \<and> iter_encode_respmsg example_env (example_qstate\<lparr>region := [True, False]\<rparr>) iq_AB msg_CD
      = (example_qstate
           \<lparr>buf := [0, 0, 0x80, 2, 0, 1, 0, 0, 0, 0, 0, 0] @ example_com,
            region := [],
            calls := [Log_info ''err response %s'',
                      Log_err ''transitioning to response state sans response.'']\<rparr>,
         iq_AB\<lparr>state := FINISHED_STATE\<rparr>)
   \<and> (if prepend_list example_iq \<noteq> []
       then iter_prepend example_env example_iq example_msg (region example_tight_qstate)
       else (True, example_msg, region example_tight_qstate))
        = (True, example_msg, [True, True, True])
   \<and> \<not> fst (reply_info_answer_encode example_env (respmsg_qinf example_tight_qstate example_iq)
               (rep example_msg) 0 (orig_qflags example_iq) (buf example_tight_qstate)
               (time_now example_env) True (udp_size (edns example_tight_qstate))
               (respmsg_edns example_env example_tight_qstate))
   \<and> iter_encode_respmsg example_env example_tight_qstate example_iq example_msg
      = (example_tight_qstate
           \<lparr>buf := [0, 0, 0x80, 2, 0, 1, 0, 0, 0, 0, 0, 0] @ example_com,
            calls := [Log_info ''err response %s'',
                      Log_err ''transitioning to response state sans response.'']\<rparr>,
         example_iq\<lparr>state := FINISHED_STATE\<rparr>)"
proof -
  have s1: "(if prepend_list iq_AB \<noteq> []
    then iter_prepend example_env iq_AB msg_CD (region (example_qstate\<lparr>region := [True, False]\<rparr>))
    else (True, msg_CD, region (example_qstate\<lparr>region := [True, False]\<rparr>)))
     = (False, msg_CD, [])"
    by (simp add: iter_prepend_def Let_def numeral_2_eq_2 example_defs)
  have s2: "(if prepend_list example_iq \<noteq> []
       then iter_prepend example_env example_iq example_msg (region example_tight_qstate)
       else (True, example_msg, region example_tight_qstate))
        = (True, example_msg, [True, True, True])"
    by (simp add: example_tight_qstate_def example_defs)
  have e2: "\<not> fst (reply_info_answer_encode example_env (respmsg_qinf example_tight_qstate example_iq)
               (rep example_msg) 0 (orig_qflags example_iq) (buf example_tight_qstate)
               (time_now example_env) True (udp_size (edns example_tight_qstate))
               (respmsg_edns example_env example_tight_qstate))"
    by (simp add: respmsg_qinf_def example_tight_qstate_def example_defs)
  have p1: "iter_prepend example_env iq_AB msg_CD [True, False] = (False, msg_CD, [])"
    by (simp add: iter_prepend_def Let_def numeral_2_eq_2 example_defs)
  have f: "prepend_list iq_AB \<noteq> []" "prepend_list example_iq = []"
    "iter_qstate.final_state iq_AB = FINISHED_STATE"
    "iter_qstate.final_state example_iq = FINISHED_STATE"
    "orig_qname example_iq = None"
    "LDNS_QR_SET example_env (LDNS_RCODE_SET example_env
        (qinfo_query_encode example_env b qi) (LDNS_RCODE_SERVFAIL example_env))
       = [0, 0, 0x80, 2, 0, 1, 0, 0, 0, 0, 0, 0] @ qname qi" for b qi
    by (simp_all add: example_env_def example_qstate_def iq_AB_def example_iq_def
          zeroed_iter_qstate_def)
  have v1: "iter_encode_respmsg example_env (example_qstate\<lparr>region := [True, False]\<rparr>) iq_AB msg_CD
      = (example_qstate
           \<lparr>buf := [0, 0, 0x80, 2, 0, 1, 0, 0, 0, 0, 0, 0] @ example_com,
            region := [],
            calls := [Log_info ''err response %s'',
                      Log_err ''transitioning to response state sans response.'']\<rparr>,
         iq_AB\<lparr>state := FINISHED_STATE\<rparr>)"
    by (simp add: iter_encode_respmsg_def error_response_eq next_state_eq called_def p1 f
          example_qstate_def)
  have enc: "reply_info_answer_encode example_env qi rp i fl b now c us e0
               = (12 + length (qname qi) \<le> unat us,
                  [0, 0, 0x80, 0, 0, 1, 0, of_nat (rrset_count rp), 0, 0, 0, 0] @ qname qi)"
    for qi rp i fl b now c us e0
    by (simp add: example_env_def)
  have len: "length example_com = 13"
    by (simp add: example_com_def lab_example_def lab_com_def)
  have v2: "iter_encode_respmsg example_env example_tight_qstate example_iq example_msg
      = (example_tight_qstate
           \<lparr>buf := [0, 0, 0x80, 2, 0, 1, 0, 0, 0, 0, 0, 0] @ example_com,
            calls := [Log_info ''err response %s'',
                      Log_err ''transitioning to response state sans response.'']\<rparr>,
         example_iq\<lparr>state := FINISHED_STATE\<rparr>)"
    by (simp add: iter_encode_respmsg_def respmsg_qinf_def error_response_eq
          next_state_eq called_def Let_def f enc len example_tight_qstate_def example_qstate_def)
  from encode_failure_is_servfail [OF s1] encode_failure_is_servfail [OF s2] s1 s2 e2 v1 v2
  show ?thesis by simp
qed

subsection \<open>A cached answer\<close>

text \<open>
  Claim C1. The cache holds the address record of \<^verbatim>\<open>example.com\<close>, a direct answer to the
  client's query. The handler does not assemble a response from it: it counts a restart
  and stays in the initial state. Run from a new-query event, the module looks the
  answer up nine times, until the restart count is over the limit, and leaves the
  SERVFAIL error response in the buffer.
\<close>

theorem cached_answer_gets_servfail:
  "cached example_env (qinfo example_qstate) = Some example_msg
   \<and> processInitRequest example_env example_qstate example_iq (modinfo example_env) =
        Some (True,
              example_qstate\<lparr>calls := [Dns_cache_lookup example_com 13 1 1 False]\<rparr>,
              example_iq\<lparr>query_restart_count := 1\<rparr>)
   \<and> iter_operate example_env example_qstate module_event_new None =
        Some (example_qstate
                \<lparr>buf := [0, 0, 0x80, 2, 0, 1, 0, 0, 0, 0, 0, 0] @ example_com,
                 region := [True, True],
                 minfo := Some (example_iq\<lparr>state := FINISHED_STATE,
                                           query_restart_count := 9\<rparr>),
                 calls := Log_info ''iter state machine''
                          # replicate 9 (Dns_cache_lookup example_com 13 1 1 False)
                          @ [Log_info ''err response %s'',
                             Log_err ''transitioning to response state sans response.'',
                             Log_warn ''iterator: invalid state: %d'']\<rparr>)"
proof (intro conjI)
  show "cached example_env (qinfo example_qstate) = Some example_msg"
    by (simp add: example_env_def example_qstate_def)
  show "processInitRequest example_env example_qstate example_iq (modinfo example_env) =
        Some (True,
              example_qstate\<lparr>calls := [Dns_cache_lookup example_com 13 1 1 False]\<rparr>,
              example_iq\<lparr>query_restart_count := 1\<rparr>)"
    by (simp add: processInitRequest_def next_state_eq called_def Let_def
          example_env_def example_qstate_def example_iq_def zeroed_iter_qstate_def)
  show "iter_operate example_env example_qstate module_event_new None =
        Some (example_qstate
                \<lparr>buf := [0, 0, 0x80, 2, 0, 1, 0, 0, 0, 0, 0, 0] @ example_com,
                 region := [True, True],
                 minfo := Some (example_iq\<lparr>state := FINISHED_STATE,
                                           query_restart_count := 9\<rparr>),
                 calls := Log_info ''iter state machine''
                          # replicate 9 (Dns_cache_lookup example_com 13 1 1 False)
                          @ [Log_info ''err response %s'',
                             Log_err ''transitioning to response state sans response.'',
                             Log_warn ''iterator: invalid state: %d'']\<rparr>)"
    by (simp add: iter_operate_def iter_new_def process_request_def iter_handle.simps
          processInitRequest_def error_response_eq next_state_eq called_def Let_def
          example_env_def example_qstate_def example_iq_def zeroed_iter_qstate_def
          eval_nat_numeral)
qed

subsection \<open>Forwarding\<close>

lemma fwd_new_ok:
  assumes "region qstate = True # r"
  shows "fwd_new env qstate =
     (let qi = qinfo qstate; ie = modinfo env;
          flags = (if has_cd qi then BIT_CD env else 0);
          qstate1 = called (Send_query (qname qi) (qname_len qi) (qtype qi) (qclass qi) flags 1
                              (fwd_addr ie) (fwd_addrlen ie))
                      (qstate\<lparr>region := r, minfo := Some zeroed_iter_qstate\<rparr>)
      in case send_query env (qname qi) (qname_len qi) (qtype qi) (qclass qi) flags 1
                (fwd_addr ie) (fwd_addrlen ie) of
           None \<Rightarrow> (False, qstate1)
         | Some ent \<Rightarrow>
             (True, qstate1\<lparr>minfo := Some (zeroed_iter_qstate\<lparr>outlist := [ent]\<rparr>),
                             ext_state := module_wait_reply\<rparr>))"
  using assms by (simp add: fwd_new_def Let_def zeroed_iter_qstate_def split: option.splits)

lemma fwd_new_failed:
  assumes "\<not> fst (region_alloc (region qstate))"
  shows "fwd_new env qstate
           = (False, qstate\<lparr>region := snd (region_alloc (region qstate)), minfo := None\<rparr>)"
  using assms by (cases "region_alloc (region qstate)") (simp add: fwd_new_def)

lemma fwd_new_lookups:
  "filter is_lookup (calls (snd (fwd_new env qstate))) = filter is_lookup (calls qstate)"
  by (cases "region_alloc (region qstate)")
     (auto simp: fwd_new_def Let_def called_def split: bool.splits option.splits)

lemma iter_handlereply_lookups:
  "iter_handlereply env qstate outbound = Some (ok, qstate')
   \<Longrightarrow> filter is_lookup (calls qstate') = filter is_lookup (calls qstate)"
  by (auto simp: iter_handlereply_def Let_def called_def
           split: option.splits prod.splits if_splits)

lemma perform_forward_lookups:
  assumes "perform_forward env qstate event outbound = Some qstate'"
  shows "filter is_lookup (calls qstate') = filter is_lookup (calls qstate)"
proof (cases "event = module_event_new")
  case True
  obtain ok q1 where f: "fwd_new env qstate = (ok, q1)" by (cases "fwd_new env qstate")
  from fwd_new_lookups [of env qstate] f
  have "filter is_lookup (calls q1) = filter is_lookup (calls qstate)" by simp
  with True f assms show ?thesis
    by (cases ok) (auto simp: perform_forward_def)
next
  case False
  with assms show ?thesis
    by (auto simp: perform_forward_def called_def
             split: if_splits option.splits prod.splits bool.splits
             dest: iter_handlereply_lookups)
qed

lemma iter_handlereply_ok:
  assumes "reply qstate = Some rbuf"
      and "reply_info_parse env rbuf = Some (rq, rm, re)"
      and "reply_info_answer_encode env rq rm 0 (query_flags qstate) (buf qstate) 0 False
             (udp_size (edns qstate)) (handlereply_edns env (edns qstate)) = (True, b)"
  shows "iter_handlereply env qstate outbound =
           Some (True,
                 (called (Dns_cache_store_msg rq (query_hash qstate) rm)
                    (qstate\<lparr>edns := handlereply_edns env (edns qstate), buf := b\<rparr>))
                   \<lparr>ext_state := module_finished\<rparr>)"
  using assms by (simp add: iter_handlereply_def Let_def called_def)

lemma iter_operate_forward:
  "fwd_addrlen (modinfo env) \<noteq> 0
   \<Longrightarrow> iter_operate env qstate event outbound = perform_forward env qstate event outbound"
  by (simp add: iter_operate_def)

lemma perform_forward_new_ok:
  assumes "fst (region_alloc (region qstate))"
  shows "\<exists>qstate'. perform_forward env qstate module_event_new outbound = Some qstate'
           \<and> calls qstate' = calls qstate @ [forward_call env (qinfo qstate)]
           \<and> ext_state qstate' = (if forward_sent env (qinfo qstate) = None then module_error
                                  else module_wait_reply)"
proof -
  from assms obtain r where r: "region qstate = True # r"
    by (cases "region qstate") auto
  show ?thesis
    by (cases "forward_sent env (qinfo qstate)")
       (simp_all add: perform_forward_def fwd_new_ok [OF r] Let_def called_def)
qed

lemma perform_forward_new_failed:
  assumes "\<not> fst (region_alloc (region qstate))"
  shows "perform_forward env qstate module_event_new outbound
           = Some (qstate\<lparr>region := snd (region_alloc (region qstate)), minfo := None,
                           ext_state := module_error\<rparr>)"
  by (simp add: perform_forward_def fwd_new_failed [OF assms])

lemma perform_forward_reply_ok:
  assumes "outbound \<noteq> None"
      and "reply qstate = Some rbuf"
      and "reply_info_parse env rbuf = Some (rq, rm, re)"
      and "fst (reply_info_answer_encode env rq rm 0 (query_flags qstate) (buf qstate) 0 False
             (udp_size (edns qstate)) (handlereply_edns env (edns qstate)))"
  shows "\<exists>qstate'. perform_forward env qstate module_event_reply outbound = Some qstate'
           \<and> calls qstate' = calls qstate @ [Dns_cache_store_msg rq (query_hash qstate) rm]
           \<and> ext_state qstate' = module_finished"
proof -
  obtain b where "reply_info_answer_encode env rq rm 0 (query_flags qstate) (buf qstate) 0 False
             (udp_size (edns qstate)) (handlereply_edns env (edns qstate)) = (True, b)"
    using assms(4)
    by (cases "reply_info_answer_encode env rq rm 0 (query_flags qstate) (buf qstate) 0 False
             (udp_size (edns qstate)) (handlereply_edns env (edns qstate))") auto
  from iter_handlereply_ok [OF assms(2,3) this, of outbound] assms(1) show ?thesis
    by (simp add: perform_forward_def called_def)
qed

lemma perform_forward_reply_failed:
  assumes "outbound \<noteq> None"
      and "reply qstate = Some rbuf"
      and "reply_info_parse env rbuf = None
           \<or> (\<exists>rq rm re. reply_info_parse env rbuf = Some (rq, rm, re)
                \<and> \<not> fst (reply_info_answer_encode env rq rm 0 (query_flags qstate)
                           (buf qstate) 0 False (udp_size (edns qstate))
                           (handlereply_edns env (edns qstate))))"
  shows "\<exists>qstate'. perform_forward env qstate module_event_reply outbound = Some qstate'
           \<and> calls qstate' = calls qstate
           \<and> ext_state qstate' = module_error"
  using assms
  by (auto simp: perform_forward_def iter_handlereply_def Let_def split: prod.splits)

lemma perform_forward_timeout:
  assumes "event = module_event_timeout \<or> event = module_event_error"
  shows "perform_forward env qstate event outbound = Some (qstate\<lparr>ext_state := module_error\<rparr>)"
  using assms by (auto simp: perform_forward_def)

text \<open>
  Claim C6, amended. With a forward address configured (\<^verbatim>\<open>fwd_addrlen\<close> not zero),
  \<^verbatim>\<open>iter_operate\<close> is \<^verbatim>\<open>perform_forward\<close> for every event and consults neither the cache for
  a message nor for a delegation. A new query allocates the per-query state; when that
  succeeds, \<^verbatim>\<open>send_query\<close> is called exactly once, for the query as it is, with 1 for the
  DNSSEC argument, the CD flag iff the client set it, and the forward address; the query
  then waits for a reply when an entry was returned and is in error otherwise. When the
  allocation fails nothing is sent and the query is in error. A reply that parses and
  encodes is stored in the cache and the query is finished; a reply that does not, a
  timeout and an error leave the query in error.
\<close>

theorem forward_mode:
  assumes "fwd_addrlen (modinfo env) \<noteq> 0"
  shows "iter_operate env qstate event outbound = perform_forward env qstate event outbound
         \<and> (\<forall>qstate'. iter_operate env qstate event outbound = Some qstate' \<longrightarrow>
                filter is_lookup (calls qstate') = filter is_lookup (calls qstate))
         \<and> (event = module_event_new \<and> fst (region_alloc (region qstate)) \<longrightarrow>
                (\<exists>qstate'. iter_operate env qstate event outbound = Some qstate'
                   \<and> calls qstate' = calls qstate @ [forward_call env (qinfo qstate)]
                   \<and> ext_state qstate' =
                         (if forward_sent env (qinfo qstate) = None then module_error
                          else module_wait_reply)))
         \<and> (event = module_event_new \<and> \<not> fst (region_alloc (region qstate)) \<longrightarrow>
                (\<exists>qstate'. iter_operate env qstate event outbound = Some qstate'
                   \<and> calls qstate' = calls qstate
                   \<and> ext_state qstate' = module_error))
         \<and> (event = module_event_reply \<and> outbound \<noteq> None \<and> reply qstate = Some rbuf
              \<and> reply_info_parse env rbuf = Some (rq, rm, re)
              \<and> fst (reply_info_answer_encode env rq rm 0 (query_flags qstate) (buf qstate) 0
                       False (udp_size (edns qstate)) (handlereply_edns env (edns qstate))) \<longrightarrow>
                (\<exists>qstate'. iter_operate env qstate event outbound = Some qstate'
                   \<and> calls qstate' = calls qstate @ [Dns_cache_store_msg rq (query_hash qstate) rm]
                   \<and> ext_state qstate' = module_finished))
         \<and> (event = module_event_reply \<and> outbound \<noteq> None \<and> reply qstate = Some rbuf
              \<and> (reply_info_parse env rbuf = None
                   \<or> reply_info_parse env rbuf = Some (rq, rm, re)
                     \<and> \<not> fst (reply_info_answer_encode env rq rm 0 (query_flags qstate)
                                (buf qstate) 0 False (udp_size (edns qstate))
                                (handlereply_edns env (edns qstate)))) \<longrightarrow>
                (\<exists>qstate'. iter_operate env qstate event outbound = Some qstate'
                   \<and> calls qstate' = calls qstate
                   \<and> ext_state qstate' = module_error))
         \<and> (event = module_event_timeout \<or> event = module_event_error \<longrightarrow>
                iter_operate env qstate event outbound
                  = Some (qstate\<lparr>ext_state := module_error\<rparr>))"
proof -
  note op = iter_operate_forward [OF assms]
  have 1: "iter_operate env qstate event outbound = perform_forward env qstate event outbound"
    by (rule op)
  have 2: "\<forall>qstate'. iter_operate env qstate event outbound = Some qstate' \<longrightarrow>
                filter is_lookup (calls qstate') = filter is_lookup (calls qstate)"
    using perform_forward_lookups by (simp add: op)
  have 3: "event = module_event_new \<and> fst (region_alloc (region qstate)) \<longrightarrow>
                (\<exists>qstate'. iter_operate env qstate event outbound = Some qstate'
                   \<and> calls qstate' = calls qstate @ [forward_call env (qinfo qstate)]
                   \<and> ext_state qstate' =
                         (if forward_sent env (qinfo qstate) = None then module_error
                          else module_wait_reply))"
    using perform_forward_new_ok [of qstate env outbound] by (simp add: op)
  have 4: "event = module_event_new \<and> \<not> fst (region_alloc (region qstate)) \<longrightarrow>
                (\<exists>qstate'. iter_operate env qstate event outbound = Some qstate'
                   \<and> calls qstate' = calls qstate
                   \<and> ext_state qstate' = module_error)"
    using perform_forward_new_failed [of qstate env outbound] by (simp add: op)
  have 5: "event = module_event_reply \<and> outbound \<noteq> None \<and> reply qstate = Some rbuf
              \<and> reply_info_parse env rbuf = Some (rq, rm, re)
              \<and> fst (reply_info_answer_encode env rq rm 0 (query_flags qstate) (buf qstate) 0
                       False (udp_size (edns qstate)) (handlereply_edns env (edns qstate))) \<longrightarrow>
                (\<exists>qstate'. iter_operate env qstate event outbound = Some qstate'
                   \<and> calls qstate' = calls qstate @ [Dns_cache_store_msg rq (query_hash qstate) rm]
                   \<and> ext_state qstate' = module_finished)"
    using perform_forward_reply_ok [of outbound qstate rbuf env rq rm re] by (simp add: op)
  have 6: "event = module_event_timeout \<or> event = module_event_error \<longrightarrow>
                iter_operate env qstate event outbound
                  = Some (qstate\<lparr>ext_state := module_error\<rparr>)"
    using perform_forward_timeout [of event env qstate outbound] by (simp add: op)
  have 7: "event = module_event_reply \<and> outbound \<noteq> None \<and> reply qstate = Some rbuf
              \<and> (reply_info_parse env rbuf = None
                   \<or> reply_info_parse env rbuf = Some (rq, rm, re)
                     \<and> \<not> fst (reply_info_answer_encode env rq rm 0 (query_flags qstate)
                                (buf qstate) 0 False (udp_size (edns qstate))
                                (handlereply_edns env (edns qstate)))) \<longrightarrow>
                (\<exists>qstate'. iter_operate env qstate event outbound = Some qstate'
                   \<and> calls qstate' = calls qstate
                   \<and> ext_state qstate' = module_error)"
    using perform_forward_reply_failed [of outbound qstate rbuf env] by (auto simp: op)
  from 1 2 3 4 5 7 6 show ?thesis by (intro conjI)
qed

text \<open>A query is forwarded, and then its reply or a timeout arrives.\<close>

theorem forward_mode_example:
  "fwd_addrlen (modinfo example_fwd_env) \<noteq> 0
   \<and> fst (region_alloc (region example_qstate))
   \<and> iter_operate example_fwd_env example_qstate module_event_new None =
        Some (example_qstate
                \<lparr>region := [True, True],
                 minfo := Some (zeroed_iter_qstate\<lparr>outlist := [7]\<rparr>),
                 ext_state := module_wait_reply,
                 calls := [Send_query example_com 13 1 1 0 1 [192, 0, 2, 53] 16]\<rparr>)
   \<and> reply example_waiting_qstate = Some example_reply
   \<and> reply_info_parse example_fwd_env example_reply \<noteq> None
   \<and> iter_operate example_fwd_env example_waiting_qstate module_event_reply (Some 7) =
        Some (example_waiting_qstate
                \<lparr>edns := \<lparr>edns_present = False, ext_rcode = 0, edns_version = 0, bits = 0,
                          udp_size = 4096\<rparr>,
                 buf := example_reply,
                 ext_state := module_finished,
                 calls := [Send_query example_com 13 1 1 0 1 [192, 0, 2, 53] 16,
                           Dns_cache_store_msg (qinfo example_qstate) 0
                             \<lparr>rrsets = [rrset_of example_com 1 200], rrset_count = 1\<rparr>]\<rparr>)
   \<and> iter_operate example_fwd_env example_waiting_qstate module_event_timeout (Some 7) =
        Some (example_waiting_qstate\<lparr>ext_state := module_error\<rparr>)"
proof -
  have f: "fwd_addrlen (modinfo example_fwd_env) \<noteq> 0"
    by (simp add: example_fwd_env_def)
  have a: "fst (region_alloc (region example_qstate))"
    by (simp add: example_qstate_def)
  have r: "reply example_waiting_qstate = Some example_reply"
    "reply_info_parse example_fwd_env example_reply \<noteq> None"
    by (simp_all add: example_waiting_qstate_def example_reply_def example_fwd_env_def
          example_env_def)
  have v1: "iter_operate example_fwd_env example_qstate module_event_new None =
        Some (example_qstate
                \<lparr>region := [True, True],
                 minfo := Some (zeroed_iter_qstate\<lparr>outlist := [7]\<rparr>),
                 ext_state := module_wait_reply,
                 calls := [Send_query example_com 13 1 1 0 1 [192, 0, 2, 53] 16]\<rparr>)"
    by (simp add: iter_operate_def perform_forward_def fwd_new_def called_def Let_def
          example_fwd_env_def example_env_def example_qstate_def)
  have v2: "iter_operate example_fwd_env example_waiting_qstate module_event_reply (Some 7) =
        Some (example_waiting_qstate
                \<lparr>edns := \<lparr>edns_present = False, ext_rcode = 0, edns_version = 0, bits = 0,
                          udp_size = 4096\<rparr>,
                 buf := example_reply,
                 ext_state := module_finished,
                 calls := [Send_query example_com 13 1 1 0 1 [192, 0, 2, 53] 16,
                           Dns_cache_store_msg (qinfo example_qstate) 0
                             \<lparr>rrsets = [rrset_of example_com 1 200], rrset_count = 1\<rparr>]\<rparr>)"
    by (simp add: iter_operate_def perform_forward_def iter_handlereply_def handlereply_edns_def
          called_def Let_def example_fwd_env_def example_env_def example_waiting_qstate_def
          example_qstate_def example_reply_def example_com_def lab_example_def lab_com_def)
  have v3: "iter_operate example_fwd_env example_waiting_qstate module_event_timeout (Some 7) =
        Some (example_waiting_qstate\<lparr>ext_state := module_error\<rparr>)"
    using forward_mode [OF f, of example_waiting_qstate module_event_timeout "Some 7"]
    by auto
  from f a r v1 v2 v3 show ?thesis by simp
qed

text \<open>With no memory left in the region, a new query sends nothing.\<close>

theorem forward_without_memory_counterexample:
  "fwd_addrlen (modinfo example_fwd_env) \<noteq> 0
   \<and> iter_operate example_fwd_env (example_qstate\<lparr>region := [False]\<rparr>) module_event_new None
        = Some (example_qstate\<lparr>region := [], ext_state := module_error\<rparr>)
   \<and> filter is_send (calls (example_qstate\<lparr>region := [], ext_state := module_error\<rparr>)) = []"
  by (simp add: iter_operate_def perform_forward_def fwd_new_def
        example_fwd_env_def example_env_def example_qstate_def)

end
